theory Spec2Isabelle
  imports Complex_Main "HOL-Library.Sublist"
begin

section \<open>Conventions of the embedding\<close>

text \<open>
  The pricing engine is Python. Its \<open>float\<close> values are modelled as \<open>real\<close>, so every
  statement below is about the arithmetic the code writes down, not about rounding.
  A \<open>str\<close> is a \<open>string\<close> whose characters are the code points below 256; every
  string literal of the services lies in that range. A \<open>dict\<close> literal is an association list
  in the order the source writes it, because the code iterates over some of them and takes
  the first hit. \<open>Optional[T]\<close> is \<open>T option\<close>; an exception is a value of type
  \<open>error\<close>. Fields of different classes that carry the same name get a prefix naming
  their class (\<open>mat_\<close>, \<open>mpr_\<close>, \<open>item_\<close>, \<open>task_\<close>, ...).
  Timestamps (\<open>updated_at\<close>, \<open>created_at\<close>, \<open>processed_at\<close>) are read by no
  computation of the core and are left out of the records.
\<close>

datatype error =
    ValueError string
  | ValidationError
  | IndexError
  | KeyError string
  | TypeError
  | DataError

section \<open>Strings: \<open>str.lower\<close>, \<open>in\<close>, \<open>str.replace\<close>\<close>

definition lower_char :: "char \<Rightarrow> char" where
  "lower_char c =
     (let n = (of_char c :: nat) in
      if 65 \<le> n \<and> n \<le> 90 then char_of (n + 32)
      else if 192 \<le> n \<and> n \<le> 222 \<and> n \<noteq> 215 then char_of (n + 32)
      else c)"

definition lower :: "string \<Rightarrow> string" where
  "lower s = map lower_char s"

fun starts_with :: "string \<Rightarrow> string \<Rightarrow> bool" where
  "starts_with s [] = True"
| "starts_with [] (p # ps) = False"
| "starts_with (c # cs) (p # ps) = (c = p \<and> starts_with cs ps)"

text \<open>\<open>str_in sub s\<close> is Python's \<open>sub in s\<close> on strings.\<close>

fun str_in :: "string \<Rightarrow> string \<Rightarrow> bool" where
  "str_in sub [] = (sub = [])"
| "str_in sub (c # cs) = (starts_with (c # cs) sub \<or> str_in sub cs)"

text \<open>
  \<open>str_replace old new s\<close> is \<open>s.replace(old, new)\<close> for a non-empty \<open>old\<close>, the
  only way the source calls it: occurrences are replaced left to right, without overlap.
\<close>

fun str_replace :: "string \<Rightarrow> string \<Rightarrow> string \<Rightarrow> string" where
  "str_replace old new [] = []"
| "str_replace old new (c # cs) =
     (if old \<noteq> [] \<and> starts_with (c # cs) old
      then new @ str_replace old new (drop (length old - 1) cs)
      else c # str_replace old new cs)"

text \<open>Truthiness of an optional string: \<open>if region:\<close> holds for a non-empty string.\<close>

fun truthy :: "string option \<Rightarrow> bool" where
  "truthy None = False"
| "truthy (Some s) = (s \<noteq> [])"

section \<open>Configuration (\<open>app/config.py\<close>)\<close>

record ConfidenceWeights =
  semantic_similarity :: real
  regional_match :: real
  price_range :: real
  vendor_reliability :: real

record Settings =
  base_margin :: real
  vat_renovation :: real
  vat_new_build :: real
  regional_multipliers :: "(string \<times> real) list"
  confidence_weights :: ConfidenceWeights
  default_labor_rates :: "(string \<times> real) list"

definition settings :: Settings where
  "settings = \<lparr>
     base_margin = 0.25,
     vat_renovation = 0.10,
     vat_new_build = 0.20,
     regional_multipliers = [
       (CHR 0xCE # ''le-de-France'', 1.15),
       (''Provence-Alpes-C'' @ [CHR 0xF4] @ ''te d'' @ [CHR 0x27] @ ''Azur'', 1.10),
       (''Auvergne-Rh'' @ [CHR 0xF4] @ ''ne-Alpes'', 1.05),
       (''Occitanie'', 1.00),
       (''Nouvelle-Aquitaine'', 0.95),
       (''Hauts-de-France'', 0.90),
       (''Grand Est'', 0.95),
       (''Bourgogne-Franche-Comt'' @ [CHR 0xE9], 0.90),
       (''Centre-Val de Loire'', 0.95),
       (''Normandie'', 0.90),
       (''Bretagne'', 0.95),
       (''Pays de la Loire'', 0.95),
       (''Corse'', 1.20)],
     confidence_weights = \<lparr>
       semantic_similarity = 0.40,
       regional_match = 0.25,
       price_range = 0.20,
       vendor_reliability = 0.15\<rparr>,
     default_labor_rates = [
       (''tiling'', 45.0),
       (''painting'', 35.0),
       (''plumbing'', 55.0),
       (''electrical'', 50.0),
       (''carpentry'', 40.0),
       (''general'', 40.0)]\<rparr>"

section \<open>Storage rows (\<open>app/database.py\<close>)\<close>

record Material =
  mat_id :: nat
  mat_material_name :: string
  mat_description :: string
  mat_unit_price :: real
  mat_unit :: string
  mat_region :: string
  mat_vendor :: "string option"
  mat_quality_score :: "int option"
  mat_embedding :: "string option"
  mat_source_url :: "string option"

section \<open>Confidence Engine (\<open>app/services/material_service.py\<close>)\<close>

datatype ConfidenceTier = HIGH | MEDIUM | LOW

definition validate_price_range :: "real \<Rightarrow> real" where
  "validate_price_range unit_price =
     (if 0.1 \<le> unit_price \<and> unit_price \<le> 1000.0 then 1.0
      else if 0.01 \<le> unit_price \<and> unit_price \<le> 10000.0 then 0.7
      else 0.3)"

definition reliable_vendors :: "(string \<times> real) list" where
  "reliable_vendors = [
     (''leroy merlin'', 0.9),
     (''castorama'', 0.85),
     (''brico depot'', 0.8),
     (''weldom'', 0.75)]"

text \<open>The loop over a table that returns at the first key found in the text.\<close>

fun first_match :: "(string \<times> real) list \<Rightarrow> string \<Rightarrow> real option" where
  "first_match [] text = None"
| "first_match ((k, v) # kvs) text = (if str_in k text then Some v else first_match kvs text)"

definition get_vendor_reliability :: "string option \<Rightarrow> real" where
  "get_vendor_reliability vendor =
     (case vendor of
        None \<Rightarrow> 0.5
      | Some v \<Rightarrow>
          if v = [] then 0.5
          else (case first_match reliable_vendors (lower v) of
                  Some score \<Rightarrow> score
                | None \<Rightarrow> 0.5))"

definition regional_score :: "string option \<Rightarrow> string \<Rightarrow> real" where
  "regional_score region material_region =
     (case region of
        None \<Rightarrow> 0.0
      | Some r \<Rightarrow>
          if r \<noteq> [] \<and> material_region \<noteq> [] then
            (if lower r = lower material_region then 1.0
             else if str_in (lower r) (lower material_region)
                     \<or> str_in (lower material_region) (lower r) then 0.7
             else 0.0)
          else 0.0)"

definition calculate_confidence_score ::
  "ConfidenceWeights \<Rightarrow> Material \<Rightarrow> real \<Rightarrow> string option \<Rightarrow> real" where
  "calculate_confidence_score weights material similarity_score region =
     (let semantic_score = similarity_score * semantic_similarity weights;
          regional = regional_score region (mat_region material) * regional_match weights;
          price_score = validate_price_range (mat_unit_price material) * price_range weights;
          vendor_score = get_vendor_reliability (mat_vendor material) * vendor_reliability weights;
          total_confidence = semantic_score + regional + price_score + vendor_score
      in max 0.0 (min 1.0 total_confidence))"

definition get_confidence_tier :: "real \<Rightarrow> ConfidenceTier" where
  "get_confidence_tier confidence_score =
     (if confidence_score \<ge> 0.8 then HIGH
      else if confidence_score \<ge> 0.6 then MEDIUM
      else LOW)"

section \<open>Material Ranker (\<open>MaterialService.search_materials\<close>)\<close>

text \<open>
  The store. Tables are lists in storage order; a query without \<open>ORDER BY\<close> returns
  rows in that order.
\<close>

record Quote =
  quote_id :: string
  quote_transcript :: string
  quote_total_estimate :: real
  quote_confidence_score :: real
  quote_user_type :: string
  quote_region :: "string option"
  quote_project_type :: "string option"

record TaskDB =
  tdb_quote_id :: string
  tdb_label :: string
  tdb_estimated_duration :: string
  tdb_margin_protected_price :: real
  tdb_confidence_score :: real
  tdb_labor_cost :: "real option"

record MaterialUsage =
  mu_quote_id :: string
  mu_material_id :: nat
  mu_quantity :: real
  mu_unit_price :: real
  mu_total_price :: real
  mu_confidence_score :: real

record Feedback =
  fb_id :: string
  fb_quote_id :: string
  fb_user_type :: string
  fb_verdict :: string
  fb_comment :: "string option"
  fb_material_feedback :: "(string \<times> string) list option"
  fb_pricing_feedback :: "(string \<times> string) list option"
  fb_impact_score :: real

record VendorReliability =
  vr_vendor_name :: string
  vr_reliability_score :: real
  vr_total_quotes :: nat
  vr_accepted_quotes :: nat

record Database =
  db_materials :: "Material list"
  db_quotes :: "Quote list"
  db_tasks :: "TaskDB list"
  db_material_usage :: "MaterialUsage list"
  db_feedback :: "Feedback list"
  db_vendor_reliability :: "VendorReliability list"

record MaterialPriceResponse =
  mpr_material_name :: string
  mpr_description :: string
  mpr_unit_price :: real
  mpr_unit :: string
  mpr_region :: string
  mpr_similarity_score :: real
  mpr_confidence_tier :: ConfidenceTier
  mpr_source :: string
  mpr_vendor :: "string option"
  mpr_quality_score :: "int option"

text \<open>
  The field constraints pydantic checks when a \<open>MaterialPriceResponse\<close> is built
  (\<open>ge=0\<close> on the price, the score in \<open>[0,1]\<close>, the quality rating in \<open>1..10\<close>);
  a violation raises.
\<close>

definition valid_MaterialPriceResponse :: "MaterialPriceResponse \<Rightarrow> bool" where
  "valid_MaterialPriceResponse r =
     (0 \<le> mpr_unit_price r
      \<and> 0 \<le> mpr_similarity_score r \<and> mpr_similarity_score r \<le> 1
      \<and> (case mpr_quality_score r of None \<Rightarrow> True | Some q \<Rightarrow> 1 \<le> q \<and> q \<le> 10))"

text \<open>\<open>str.split()\<close>: the maximal runs of characters that are not white space.\<close>

definition is_space :: "char \<Rightarrow> bool" where
  "is_space c =
     (let n = (of_char c :: nat) in
      (9 \<le> n \<and> n \<le> 13) \<or> (28 \<le> n \<and> n \<le> 32) \<or> n = 133 \<or> n = 160)"

fun split_acc :: "string \<Rightarrow> string \<Rightarrow> string list" where
  "split_acc cur [] = (if cur = [] then [] else [rev cur])"
| "split_acc cur (c # cs) =
     (if is_space c then (if cur = [] then split_acc [] cs else rev cur # split_acc [] cs)
      else split_acc (c # cur) cs)"

definition split :: "string \<Rightarrow> string list" where
  "split s = split_acc [] s"

text \<open>
  \<open>_text_similarity\<close>, the fallback for a row without a stored embedding. The sets of
  words are lists without duplicates; \<open>overlap\<close> is the size of the intersection over the
  number of query words.
\<close>

definition overlap :: "string list \<Rightarrow> string list \<Rightarrow> real" where
  "overlap query_words other_words =
     (if query_words = [] then 0
      else real (length (filter (\<lambda>w. w \<in> set other_words) query_words))
           / real (length query_words))"

definition text_similarity :: "string \<Rightarrow> string \<Rightarrow> string \<Rightarrow> real" where
  "text_similarity query material_name description =
     (let query_lower = lower query;
          name_lower = lower material_name;
          desc_lower = lower description
      in if str_in query_lower name_lower \<or> str_in query_lower desc_lower then 0.9
         else
           (let query_words = remdups (split query_lower);
                name_overlap = overlap query_words (split name_lower);
                desc_overlap = overlap query_words (split desc_lower)
            in max name_overlap desc_overlap * 0.7))"

text \<open>
  \<open>_calculate_similarity_score\<close>. For a row with a stored embedding the similarity is
  the cosine of the provider's embedding of the query and the stored vector; the provider
  is outside the core, so this value is the parameter \<open>sim\<close>, a function of the query and
  the stored embedding (it is 0 where the source catches an exception). The result is
  clamped to \<open>[0,1]\<close>.
\<close>

definition calculate_similarity_score ::
  "(string \<Rightarrow> string \<Rightarrow> real) \<Rightarrow> string \<Rightarrow> Material \<Rightarrow> real" where
  "calculate_similarity_score sim query material =
     (let similarity =
            (case mat_embedding material of
               None \<Rightarrow>
                 text_similarity query (mat_material_name material) (mat_description material)
             | Some e \<Rightarrow>
                 if e = [] then
                   text_similarity query (mat_material_name material) (mat_description material)
                 else sim query e)
      in max 0.0 (min 1.0 similarity))"

text \<open>One entry of \<open>ranked_materials\<close>: the row with its two scores.\<close>

record Ranked =
  rk_material :: Material
  rk_similarity_score :: real
  rk_confidence_score :: real

text \<open>
  \<open>ranked_materials.sort(key=confidence_score, reverse=True)\<close>: Python's sort is
  stable, also with \<open>reverse=True\<close>. It is modelled as an insertion sort that puts an
  entry in front of the first entry whose score is not larger.
\<close>

fun insert_desc :: "Ranked \<Rightarrow> Ranked list \<Rightarrow> Ranked list" where
  "insert_desc x [] = [x]"
| "insert_desc x (y # ys) =
     (if rk_confidence_score x \<ge> rk_confidence_score y then x # y # ys
      else y # insert_desc x ys)"

definition sort_by_confidence :: "Ranked list \<Rightarrow> Ranked list" where
  "sort_by_confidence xs = foldr insert_desc xs []"

text \<open>The filters of step 2, with SQL's rule that a comparison with NULL selects nothing.\<close>

definition matches_filters ::
  "string option \<Rightarrow> string option \<Rightarrow> int option \<Rightarrow> string option \<Rightarrow> Material \<Rightarrow> bool" where
  "matches_filters region unit quality_score vendor m =
     ((if truthy region then Some (mat_region m) = region else True)
      \<and> (if truthy unit then Some (mat_unit m) = unit else True)
      \<and> (case quality_score of
            None \<Rightarrow> True
          | Some q \<Rightarrow> if q = 0 then True
                      else (case mat_quality_score m of None \<Rightarrow> False | Some mq \<Rightarrow> mq \<ge> q))
      \<and> (if truthy vendor then mat_vendor m = vendor else True))"

text \<open>\<open>db_query.limit(limit * 3).all()\<close>\<close>

definition fetch_candidates ::
  "Database \<Rightarrow> string option \<Rightarrow> string option \<Rightarrow> int option \<Rightarrow> string option \<Rightarrow> nat
     \<Rightarrow> Material list" where
  "fetch_candidates db region unit quality_score vendor limit =
     take (limit * 3) (filter (matches_filters region unit quality_score vendor) (db_materials db))"

definition score_material ::
  "Settings \<Rightarrow> (string \<Rightarrow> string \<Rightarrow> real) \<Rightarrow> string \<Rightarrow> string option \<Rightarrow> Material \<Rightarrow> Ranked" where
  "score_material cfg sim query region material =
     (let similarity_score = calculate_similarity_score sim query material;
          confidence_score =
            calculate_confidence_score (confidence_weights cfg) material similarity_score region
      in \<lparr>rk_material = material,
          rk_similarity_score = similarity_score,
          rk_confidence_score = confidence_score\<rparr>)"

definition to_response :: "Ranked \<Rightarrow> MaterialPriceResponse" where
  "to_response item =
     (let material = rk_material item in
      \<lparr>mpr_material_name = mat_material_name material,
       mpr_description = mat_description material,
       mpr_unit_price = mat_unit_price material,
       mpr_unit = mat_unit material,
       mpr_region = mat_region material,
       mpr_similarity_score = rk_similarity_score item,
       mpr_confidence_tier = get_confidence_tier (rk_confidence_score item),
       mpr_source = (case mat_source_url material of
                       None \<Rightarrow> ''Internal database''
                     | Some u \<Rightarrow> if u = [] then ''Internal database'' else u),
       mpr_vendor = mat_vendor material,
       mpr_quality_score = mat_quality_score material\<rparr>)"

text \<open>
  The ranking step on its own (steps 3 and 4 and the slice of step 5): the entries that the
  response list is built from, in the order of the response list.
\<close>

definition top_ranked ::
  "Settings \<Rightarrow> (string \<Rightarrow> string \<Rightarrow> real) \<Rightarrow> string \<Rightarrow> string option \<Rightarrow> nat
     \<Rightarrow> Material list \<Rightarrow> Ranked list" where
  "top_ranked cfg sim query region limit materials =
     take limit (sort_by_confidence (map (score_material cfg sim query region) materials))"

text \<open>
  \<open>limit\<close> is a \<open>nat\<close>: the request layer admits \<open>1..20\<close> and the proposal pipeline
  passes 3.
\<close>

definition search_materials ::
  "Settings \<Rightarrow> (string \<Rightarrow> string \<Rightarrow> real) \<Rightarrow> Database \<Rightarrow> string
     \<Rightarrow> string option \<Rightarrow> string option \<Rightarrow> int option \<Rightarrow> string option \<Rightarrow> nat
     \<Rightarrow> error + MaterialPriceResponse list" where
  "search_materials cfg sim db query region unit quality_score vendor limit =
     (let materials = fetch_candidates db region unit quality_score vendor limit in
      if materials = [] then Inr []
      else
        (let results = map to_response (top_ranked cfg sim query region limit materials) in
         if list_all valid_MaterialPriceResponse results then Inr results
         else Inl ValidationError))"

section \<open>Task Extractor (\<open>app/services/pricing_service.py\<close>)\<close>

record TaskData =
  td_type :: string
  td_materials :: "MaterialPriceResponse list"
  td_duration :: string

record Extracted =
  ex_materials :: "MaterialPriceResponse list"
  ex_tasks :: "TaskData list"
  ex_keywords :: "string list"

text \<open>A \<open>dict.get(key, default)\<close> on a table written as an association list.\<close>

definition get_or :: "(string \<times> 'a) list \<Rightarrow> string \<Rightarrow> 'a \<Rightarrow> 'a" where
  "get_or table key dflt = (case map_of table key of None \<Rightarrow> dflt | Some v \<Rightarrow> v)"

definition task_keywords :: "(string \<times> string list) list" where
  "task_keywords = [
     (''tiling'', [''tile'', ''carrelage'', ''bathroom'', ''shower'', ''wall'']),
     (''painting'', [''paint'', ''peinture'', ''wall'', ''ceiling'']),
     (''plumbing'', [''pipe'', ''tuyau'', ''water'', ''bathroom'', ''kitchen'']),
     (''electrical'', [''wire'', ''fil'', ''electric'', ''switch'', ''outlet'']),
     (''carpentry'', [''wood'', ''bois'', ''door'', ''window'', ''cabinet''])]"

definition material_task_keywords :: "(string \<times> string list) list" where
  "material_task_keywords = [
     (''tiling'', [''tile'', ''carrelage'', ''adhesive'', ''grout'']),
     (''painting'', [''paint'', ''peinture'', ''primer'', ''brush'']),
     (''plumbing'', [''pipe'', ''tuyau'', ''valve'', ''fitting'']),
     (''electrical'', [''wire'', ''fil'', ''cable'', ''switch'']),
     (''carpentry'', [''wood'', ''bois'', ''board'', ''screw''])]"

definition material_belongs_to_task :: "MaterialPriceResponse \<Rightarrow> string \<Rightarrow> bool" where
  "material_belongs_to_task material task_type =
     (let material_text = lower (mpr_material_name material @ '' '' @ mpr_description material);
          keywords = get_or material_task_keywords task_type []
      in list_ex (\<lambda>keyword. str_in keyword material_text) keywords)"

definition base_durations :: "(string \<times> string) list" where
  "base_durations = [
     (''tiling'', ''2 days''),
     (''painting'', ''1 day''),
     (''plumbing'', ''1 day''),
     (''electrical'', ''1 day''),
     (''carpentry'', ''2 days''),
     (''general'', ''1 day'')]"

definition estimate_task_duration :: "string \<Rightarrow> nat \<Rightarrow> string" where
  "estimate_task_duration task_type material_count =
     (let duration = get_or base_durations task_type ''1 day'' in
      if material_count > 5 then
        (if str_in ''1 day'' duration then str_replace ''1 day'' ''2 days'' duration
         else if str_in ''2 days'' duration then str_replace ''2 days'' ''3 days'' duration
         else duration)
      else duration)"

text \<open>
  The task types whose keyword family meets an extracted keyword. The source collects
  them in a \<open>set\<close> and iterates over it; the iteration order of a Python set of strings
  is not fixed, and the model takes the order of the table.
\<close>

definition identified_tasks :: "string list \<Rightarrow> string list" where
  "identified_tasks keywords =
     map fst
       (filter
          (\<lambda>entry. list_ex (\<lambda>keyword. list_ex (\<lambda>k. str_in k (lower keyword)) (snd entry)) keywords)
          task_keywords)"

definition make_task_data :: "MaterialPriceResponse list \<Rightarrow> string \<Rightarrow> TaskData" where
  "make_task_data materials task_type =
     (let task_materials = filter (\<lambda>m. material_belongs_to_task m task_type) materials in
      \<lparr>td_type = task_type,
       td_materials = task_materials,
       td_duration = estimate_task_duration task_type (length task_materials)\<rparr>)"

definition identify_tasks :: "string list \<Rightarrow> MaterialPriceResponse list \<Rightarrow> TaskData list" where
  "identify_tasks keywords materials =
     (let tasks = map (make_task_data materials) (identified_tasks keywords) in
      if tasks = [] then
        [\<lparr>td_type = ''general'', td_materials = materials, td_duration = ''1 day''\<rparr>]
      else tasks)"

text \<open>The loop over the keywords, each searched with \<open>limit=3\<close>; an exception ends it.\<close>

fun collect_materials ::
  "Settings \<Rightarrow> (string \<Rightarrow> string \<Rightarrow> real) \<Rightarrow> Database \<Rightarrow> string option \<Rightarrow> string list
     \<Rightarrow> error + MaterialPriceResponse list" where
  "collect_materials cfg sim db region [] = Inr []"
| "collect_materials cfg sim db region (keyword # keywords) =
     (case search_materials cfg sim db keyword region None None None 3 of
        Inl e \<Rightarrow> Inl e
      | Inr material_results \<Rightarrow>
          (case collect_materials cfg sim db region keywords of
             Inl e \<Rightarrow> Inl e
           | Inr rest \<Rightarrow> Inr (material_results @ rest)))"

text \<open>
  The parameter \<open>kw\<close> is the embedding service's text heuristics: \<open>preprocess_text\<close>
  followed by \<open>get_semantic_keywords(top_k=10)\<close>. Both catch their own exceptions, so
  \<open>kw\<close> is a total function of the transcript.
\<close>

definition extract_materials_and_tasks ::
  "Settings \<Rightarrow> (string \<Rightarrow> string list) \<Rightarrow> (string \<Rightarrow> string \<Rightarrow> real) \<Rightarrow> Database
     \<Rightarrow> string \<Rightarrow> string option \<Rightarrow> Extracted" where
  "extract_materials_and_tasks cfg kw sim db transcript region =
     (let keywords = kw transcript in
      case collect_materials cfg sim db region keywords of
        Inr materials \<Rightarrow>
          \<lparr>ex_materials = materials,
           ex_tasks = identify_tasks keywords materials,
           ex_keywords = keywords\<rparr>
      | Inl e \<Rightarrow>
          \<lparr>ex_materials = [],
           ex_tasks = [\<lparr>td_type = ''general'', td_materials = [], td_duration = ''1 day''\<rparr>],
           ex_keywords = []\<rparr>)"

section \<open>Pricing Calculator (\<open>app/services/pricing_service.py\<close>)\<close>

record MaterialItem =
  item_material_name :: string
  item_quantity :: real
  item_unit :: string
  item_unit_price :: real
  item_total_price :: real
  item_confidence_score :: real

record Task =
  task_label :: string
  task_materials :: "MaterialItem list"
  task_estimated_duration :: string
  task_margin_protected_price :: real
  task_confidence_score :: real
  task_labor_cost :: "real option"

definition valid_MaterialItem :: "MaterialItem \<Rightarrow> bool" where
  "valid_MaterialItem i =
     (item_quantity i > 0 \<and> 0 \<le> item_unit_price i \<and> 0 \<le> item_total_price i
      \<and> 0 \<le> item_confidence_score i \<and> item_confidence_score i \<le> 1)"

definition valid_Task :: "Task \<Rightarrow> bool" where
  "valid_Task t =
     (0 \<le> task_margin_protected_price t
      \<and> 0 \<le> task_confidence_score t \<and> task_confidence_score t \<le> 1
      \<and> (case task_labor_cost t of None \<Rightarrow> True | Some c \<Rightarrow> 0 \<le> c))"

definition base_quantities :: "(string \<times> real) list" where
  "base_quantities = [
     (''tiles'', 10.0),
     (''adhesives'', 5.0),
     (''paints'', 5.0),
     (''pipes'', 10.0),
     (''wires'', 20.0),
     (''wood'', 5.0)]"

definition estimate_material_quantity :: "MaterialPriceResponse \<Rightarrow> string \<Rightarrow> real" where
  "estimate_material_quantity material task_type =
     (let material_name = lower (mpr_material_name material) in
      case first_match base_quantities material_name of
        Some quantity \<Rightarrow> quantity
      | None \<Rightarrow> 1.0)"

definition is_digit :: "char \<Rightarrow> bool" where
  "is_digit c = (48 \<le> (of_char c :: nat) \<and> (of_char c :: nat) \<le> 57)"

definition digits_to_nat :: "string \<Rightarrow> nat" where
  "digits_to_nat ds = foldl (\<lambda>n c. 10 * n + (of_char c - 48)) 0 ds"

text \<open>\<open>float(re.findall(r'\d+', duration)[0])\<close>: the first run of digits, or IndexError.\<close>

definition first_number :: "string \<Rightarrow> error + nat" where
  "first_number s =
     (let ds = takeWhile is_digit (dropWhile (\<lambda>c. \<not> is_digit c) s) in
      if ds = [] then Inl IndexError else Inr (digits_to_nat ds))"

definition parse_duration_to_hours :: "string \<Rightarrow> real" where
  "parse_duration_to_hours duration =
     (if str_in ''day'' (lower duration) then
        (case first_number duration of Inl e \<Rightarrow> 8.0 | Inr days \<Rightarrow> real days * 8)
      else if str_in ''hour'' (lower duration) then
        (case first_number duration of Inl e \<Rightarrow> 8.0 | Inr hours \<Rightarrow> real hours)
      else 8.0)"

text \<open>
  \<open>self.labor_rates.get(task_type, self.labor_rates['general'])\<close> evaluates its default
  first, so a table without \<open>'general'\<close> raises KeyError.
\<close>

definition calculate_labor_cost :: "Settings \<Rightarrow> string \<Rightarrow> string \<Rightarrow> error + real" where
  "calculate_labor_cost cfg task_type duration =
     (let hours = parse_duration_to_hours duration in
      case map_of (default_labor_rates cfg) ''general'' of
        None \<Rightarrow> Inl (KeyError ''general'')
      | Some general_rate \<Rightarrow>
          Inr (hours * get_or (default_labor_rates cfg) task_type general_rate))"

definition get_regional_multiplier :: "Settings \<Rightarrow> string option \<Rightarrow> real" where
  "get_regional_multiplier cfg region =
     (case region of
        None \<Rightarrow> 1.0
      | Some r \<Rightarrow> if r = [] then 1.0 else get_or (regional_multipliers cfg) r 1.0)"

definition task_type_confidence :: "(string \<times> real) list" where
  "task_type_confidence = [
     (''tiling'', 0.8),
     (''painting'', 0.9),
     (''plumbing'', 0.7),
     (''electrical'', 0.6),
     (''carpentry'', 0.7),
     (''general'', 0.5)]"

definition calculate_task_confidence :: "MaterialItem list \<Rightarrow> string \<Rightarrow> real" where
  "calculate_task_confidence materials task_type =
     (if materials = [] then 0.3
      else
        (let avg_material_confidence =
               sum_list (map item_confidence_score materials) / real (length materials)
         in avg_material_confidence * 0.7 + get_or task_type_confidence task_type 0.5 * 0.3))"

definition task_labels :: "(string \<times> string) list" where
  "task_labels = [
     (''tiling'', ''Tile Installation''),
     (''painting'', ''Painting''),
     (''plumbing'', ''Plumbing Work''),
     (''electrical'', ''Electrical Work''),
     (''carpentry'', ''Carpentry Work''),
     (''general'', ''General Renovation'')]"

fun str_join :: "string \<Rightarrow> string list \<Rightarrow> string" where
  "str_join sep [] = []"
| "str_join sep [x] = x"
| "str_join sep (x # y # ys) = x @ sep @ str_join sep (y # ys)"

definition create_task_label :: "string \<Rightarrow> MaterialPriceResponse list \<Rightarrow> string" where
  "create_task_label task_type materials =
     (let base_label = get_or task_labels task_type ''General Work'' in
      if materials \<noteq> [] then
        base_label @ '' - '' @ str_join '', '' (map mpr_material_name (take 2 materials))
      else base_label)"

definition make_material_item :: "string \<Rightarrow> MaterialPriceResponse \<Rightarrow> MaterialItem" where
  "make_material_item task_type material =
     (let quantity = estimate_material_quantity material task_type;
          total_price = mpr_unit_price material * quantity
      in \<lparr>item_material_name = mpr_material_name material,
          item_quantity = quantity,
          item_unit = mpr_unit material,
          item_unit_price = mpr_unit_price material,
          item_total_price = total_price,
          item_confidence_score = mpr_similarity_score material\<rparr>)"

definition fallback_task :: "string \<Rightarrow> Task" where
  "fallback_task task_type =
     \<lparr>task_label = ''General '' @ task_type,
      task_materials = [],
      task_estimated_duration = ''1 day'',
      task_margin_protected_price = 100.0,
      task_confidence_score = 0.5,
      task_labor_cost = Some 80.0\<rparr>"

text \<open>
  \<open>_calculate_task_pricing\<close>. Everything sits in one \<open>try\<close>: a \<open>MaterialItem\<close> or
  \<open>Task\<close> that pydantic rejects, or the KeyError of the labor rates, gives the fallback
  task.
\<close>

definition calculate_task_pricing ::
  "Settings \<Rightarrow> TaskData \<Rightarrow> string option \<Rightarrow> string option \<Rightarrow> Task" where
  "calculate_task_pricing cfg task_data region project_type =
     (let task_type = td_type task_data;
          materials = td_materials task_data;
          duration = td_duration task_data;
          material_items = map (make_material_item task_type) materials;
          total_material_cost = sum_list (map item_total_price material_items)
      in
      if list_all valid_MaterialItem material_items then
        (case calculate_labor_cost cfg task_type duration of
           Inl e \<Rightarrow> fallback_task task_type
         | Inr labor_cost \<Rightarrow>
             (let regional_multiplier = get_regional_multiplier cfg region;
                  adjusted_material_cost = total_material_cost * regional_multiplier;
                  adjusted_labor_cost = labor_cost * regional_multiplier;
                  margin_protected_price =
                    (adjusted_material_cost + adjusted_labor_cost) * (1 + base_margin cfg);
                  task_confidence = calculate_task_confidence material_items task_type;
                  task = \<lparr>task_label = create_task_label task_type materials,
                          task_materials = material_items,
                          task_estimated_duration = duration,
                          task_margin_protected_price = margin_protected_price,
                          task_confidence_score = task_confidence,
                          task_labor_cost = Some adjusted_labor_cost\<rparr>
              in if valid_Task task then task else fallback_task task_type))
      else fallback_task task_type)"

definition determine_vat_rate :: "Settings \<Rightarrow> string option \<Rightarrow> real" where
  "determine_vat_rate cfg project_type =
     (case project_type of
        None \<Rightarrow> vat_renovation cfg
      | Some p \<Rightarrow>
          if p \<noteq> [] \<and> str_in ''new'' (lower p) then vat_new_build cfg
          else vat_renovation cfg)"

definition calculate_overall_confidence :: "Task list \<Rightarrow> real" where
  "calculate_overall_confidence tasks =
     (if tasks = [] then 0.0
      else sum_list (map task_confidence_score tasks) / real (length tasks))"

datatype UserType = CONTRACTOR | CLIENT | ARCHITECT

fun user_type_value :: "UserType \<Rightarrow> string" where
  "user_type_value CONTRACTOR = ''contractor''"
| "user_type_value CLIENT = ''client''"
| "user_type_value ARCHITECT = ''architect''"

record GenerateProposalResponse =
  prop_quote_id :: string
  prop_transcript :: string
  prop_tasks :: "Task list"
  prop_total_estimate :: real
  prop_confidence_score :: real
  prop_vat_rate :: real
  prop_margin_percentage :: real
  prop_region :: "string option"
  prop_project_type :: "string option"

definition valid_GenerateProposalResponse :: "GenerateProposalResponse \<Rightarrow> bool" where
  "valid_GenerateProposalResponse p =
     (0 \<le> prop_total_estimate p
      \<and> 0 \<le> prop_confidence_score p \<and> prop_confidence_score p \<le> 1
      \<and> 0 \<le> prop_vat_rate p \<and> prop_vat_rate p \<le> 1
      \<and> 0 \<le> prop_margin_percentage p)"

text \<open>
  The two accumulators of the loop of step 2, \<open>total_materials_cost\<close> and
  \<open>total_labor_cost\<close>; a labor cost that is \<open>None\<close> or zero is skipped by
  \<open>if task.labor_cost:\<close>.
\<close>

fun accumulate_costs :: "Task list \<Rightarrow> real \<times> real \<Rightarrow> real \<times> real" where
  "accumulate_costs [] acc = acc"
| "accumulate_costs (task # tasks) (total_materials_cost, total_labor_cost) =
     (let task_materials_cost = sum_list (map item_total_price (task_materials task)) in
      accumulate_costs tasks
        (total_materials_cost + task_materials_cost,
         (case task_labor_cost task of
            None \<Rightarrow> total_labor_cost
          | Some c \<Rightarrow> if c \<noteq> 0 then total_labor_cost + c else total_labor_cost)))"

definition task_row :: "string \<Rightarrow> Task \<Rightarrow> TaskDB" where
  "task_row qid task =
     \<lparr>tdb_quote_id = qid,
      tdb_label = task_label task,
      tdb_estimated_duration = task_estimated_duration task,
      tdb_margin_protected_price = task_margin_protected_price task,
      tdb_confidence_score = task_confidence_score task,
      tdb_labor_cost = task_labor_cost task\<rparr>"

text \<open>A \<open>MaterialItem\<close> has no attribute \<open>material_id\<close>, so the row gets 0.\<close>

definition usage_row :: "string \<Rightarrow> MaterialItem \<Rightarrow> MaterialUsage" where
  "usage_row qid material =
     \<lparr>mu_quote_id = qid,
      mu_material_id = 0,
      mu_quantity = item_quantity material,
      mu_unit_price = item_unit_price material,
      mu_total_price = item_total_price material,
      mu_confidence_score = item_confidence_score material\<rparr>"

text \<open>
  \<open>generate_proposal\<close>. \<open>new_quote_id\<close> stands for \<open>str(uuid.uuid4())\<close>. The rows
  are committed before the response object is built, so a response that pydantic rejects
  raises after the commit.
\<close>

definition generate_proposal ::
  "Settings \<Rightarrow> (string \<Rightarrow> string list) \<Rightarrow> (string \<Rightarrow> string \<Rightarrow> real) \<Rightarrow> Database
     \<Rightarrow> string \<Rightarrow> UserType \<Rightarrow> string option \<Rightarrow> string option \<Rightarrow> string
     \<Rightarrow> Database \<times> (error + GenerateProposalResponse)" where
  "generate_proposal cfg kw sim db transcript user_type region project_type new_quote_id =
     (let extracted_data = extract_materials_and_tasks cfg kw sim db transcript region;
          tasks = map (\<lambda>task_data. calculate_task_pricing cfg task_data region project_type)
                      (ex_tasks extracted_data);
          totals = accumulate_costs tasks (0.0, 0.0);
          subtotal = fst totals + snd totals;
          vat_rate = determine_vat_rate cfg project_type;
          vat_amount = subtotal * vat_rate;
          margin_amount = subtotal * base_margin cfg;
          total_estimate = subtotal + vat_amount + margin_amount;
          confidence_score = calculate_overall_confidence tasks;
          quote = \<lparr>quote_id = new_quote_id,
                   quote_transcript = transcript,
                   quote_total_estimate = total_estimate,
                   quote_confidence_score = confidence_score,
                   quote_user_type = user_type_value user_type,
                   quote_region = region,
                   quote_project_type = project_type\<rparr>;
          db' = db\<lparr>db_quotes := db_quotes db @ [quote],
                   db_tasks := db_tasks db @ map (task_row new_quote_id) tasks,
                   db_material_usage := db_material_usage db
                      @ concat (map (\<lambda>task. map (usage_row new_quote_id) (task_materials task)) tasks)\<rparr>;
          response = \<lparr>prop_quote_id = new_quote_id,
                      prop_transcript = transcript,
                      prop_tasks = tasks,
                      prop_total_estimate = total_estimate,
                      prop_confidence_score = confidence_score,
                      prop_vat_rate = vat_rate,
                      prop_margin_percentage = base_margin cfg,
                      prop_region = region,
                      prop_project_type = project_type\<rparr>
      in if valid_GenerateProposalResponse response then (db', Inr response)
         else (db', Inl ValidationError))"

section \<open>Feedback Learner (\<open>app/services/feedback_service.py\<close>)\<close>

datatype VerdictType = ACCEPTED | REJECTED | OVERPRICED | UNDERPRICED | MODIFIED

fun verdict_value :: "VerdictType \<Rightarrow> string" where
  "verdict_value ACCEPTED = ''accepted''"
| "verdict_value REJECTED = ''rejected''"
| "verdict_value OVERPRICED = ''overpriced''"
| "verdict_value UNDERPRICED = ''underpriced''"
| "verdict_value MODIFIED = ''modified''"

fun verdict_weights :: "VerdictType \<Rightarrow> real" where
  "verdict_weights REJECTED = 1.0"
| "verdict_weights OVERPRICED = 0.8"
| "verdict_weights UNDERPRICED = 0.8"
| "verdict_weights MODIFIED = 0.6"
| "verdict_weights ACCEPTED = 0.3"

fun user_weights :: "UserType \<Rightarrow> real" where
  "user_weights CONTRACTOR = 1.0"
| "user_weights ARCHITECT = 0.9"
| "user_weights CLIENT = 0.7"

fun negative_verdict :: "VerdictType \<Rightarrow> bool" where
  "negative_verdict REJECTED = True"
| "negative_verdict OVERPRICED = True"
| "negative_verdict UNDERPRICED = True"
| "negative_verdict MODIFIED = False"
| "negative_verdict ACCEPTED = False"

definition calculate_impact_score :: "VerdictType \<Rightarrow> UserType \<Rightarrow> Quote \<Rightarrow> real" where
  "calculate_impact_score verdict user_type quote =
     (let base_score = 0.5 * verdict_weights verdict;
          base_score = base_score * user_weights user_type;
          base_score =
            (if negative_verdict verdict
             then base_score * (1.0 + (1.0 - quote_confidence_score quote))
             else base_score);
          value_factor = min (quote_total_estimate quote / 1000.0) 2.0;
          base_score = base_score * value_factor
      in max 0.0 (min 1.0 base_score))"

definition material_insight :: "string \<times> string \<Rightarrow> string list" where
  "material_insight entry =
     (if str_in ''expensive'' (lower (snd entry))
      then [''Material '' @ fst entry @ '' considered expensive - review pricing'']
      else if str_in ''quality'' (lower (snd entry))
      then [''Quality feedback for '' @ fst entry @ '' - consider alternative suppliers'']
      else [])"

definition comment_insight :: "string \<Rightarrow> string list" where
  "comment_insight comment =
     (if list_ex (\<lambda>word. str_in word (lower comment)) [''expensive'', ''overpriced'', ''high'']
      then [''User indicated pricing was too high'']
      else if list_ex (\<lambda>word. str_in word (lower comment)) [''cheap'', ''good price'', ''reasonable'']
      then [''User indicated pricing was reasonable'']
      else if list_ex (\<lambda>word. str_in word (lower comment)) [''quality'', ''material'']
      then [''User provided material quality feedback'']
      else [])"

definition generate_learning_insights ::
  "Quote \<Rightarrow> VerdictType \<Rightarrow> string option \<Rightarrow> (string \<times> string) list option
     \<Rightarrow> (string \<times> string) list option \<Rightarrow> string list" where
  "generate_learning_insights quote verdict comment material_feedback pricing_feedback =
     (let on_verdict =
            (case verdict of
               REJECTED \<Rightarrow> [''Quote was completely rejected - review pricing strategy'']
             | OVERPRICED \<Rightarrow>
                 [''Quote was overpriced - consider reducing margins or finding cheaper materials'']
             | UNDERPRICED \<Rightarrow> [''Quote was underpriced - review cost calculations and margins'']
             | MODIFIED \<Rightarrow> [''Quote was modified - analyze what changes were made'']
             | ACCEPTED \<Rightarrow> []);
          on_confidence =
            (if quote_confidence_score quote > 0.8 \<and> (verdict = REJECTED \<or> verdict = OVERPRICED)
             then [''High confidence quote was rejected - review confidence scoring logic'']
             else if quote_confidence_score quote < 0.5 \<and> verdict = ACCEPTED
             then [''Low confidence quote was accepted - may be too conservative'']
             else []);
          on_region =
            (case quote_region quote of
               None \<Rightarrow> []
             | Some r \<Rightarrow>
                 if r = [] then []
                 else [''Regional feedback for '' @ r @ '' - update regional pricing if needed'']);
          on_materials =
            (case material_feedback of
               None \<Rightarrow> []
             | Some entries \<Rightarrow> concat (map material_insight entries));
          on_pricing =
            (case pricing_feedback of
               None \<Rightarrow> []
             | Some entries \<Rightarrow>
                 map (\<lambda>entry. ''Pricing feedback on '' @ fst entry @ '': '' @ snd entry) entries);
          on_comment =
            (case comment of
               None \<Rightarrow> []
             | Some c \<Rightarrow> if c = [] then [] else comment_insight c);
          insights = on_verdict @ on_confidence @ on_region @ on_materials @ on_pricing @ on_comment
      in if insights = [] then [''Feedback received - monitoring for patterns''] else insights)"

text \<open>
  The body of \<open>for vendor in vendors\<close> on a record that is in the table: both counters
  are moved and the score is recomputed.
\<close>

definition bump_vendor :: "bool \<Rightarrow> VendorReliability \<Rightarrow> VendorReliability" where
  "bump_vendor accepted v =
     (let total = vr_total_quotes v + 1;
          acc = (if accepted then vr_accepted_quotes v + 1 else vr_accepted_quotes v)
      in v\<lparr>vr_total_quotes := total,
            vr_accepted_quotes := acc,
            vr_reliability_score := real acc / real total\<rparr>)"

text \<open>The record that \<open>.first()\<close> returns is the first of that name; it is changed in place.\<close>

fun bump_first :: "string \<Rightarrow> bool \<Rightarrow> VendorReliability list \<Rightarrow> VendorReliability list" where
  "bump_first vendor accepted [] = []"
| "bump_first vendor accepted (v # vs) =
     (if vr_vendor_name v = vendor then bump_vendor accepted v # vs
      else v # bump_first vendor accepted vs)"

text \<open>
  The loop over the vendors. A vendor without a record gets
  \<open>VendorReliability(vendor_name=vendor)\<close>, which is added to the session; the column
  defaults are filled in only when the session is flushed, so \<open>total_quotes\<close> of the new
  object is \<open>None\<close> and \<open>total_quotes += 1\<close> raises TypeError. The handler of
  \<open>_update_vendor_reliability\<close> logs it, which ends the loop; the object stays in the
  session and would reach the table with the column defaults (score 0.5, no quotes).
\<close>

fun update_vendors :: "bool \<Rightarrow> Database \<Rightarrow> string list \<Rightarrow> Database" where
  "update_vendors accepted db [] = db"
| "update_vendors accepted db (vendor # vendors) =
     (case find (\<lambda>v. vr_vendor_name v = vendor) (db_vendor_reliability db) of
        Some existing \<Rightarrow>
          update_vendors accepted
            (db\<lparr>db_vendor_reliability := bump_first vendor accepted (db_vendor_reliability db)\<rparr>)
            vendors
      | None \<Rightarrow>
          db\<lparr>db_vendor_reliability := db_vendor_reliability db @
               [\<lparr>vr_vendor_name = vendor, vr_reliability_score = 0.5,
                 vr_total_quotes = 0, vr_accepted_quotes = 0\<rparr>]\<rparr>)"

text \<open>
  \<open>_update_vendor_reliability\<close>. The loop that should gather the vendors of the quote's
  material usages has the body \<open>pass\<close>: the set of vendors stays as it was created.
\<close>

definition update_vendor_reliability :: "Database \<Rightarrow> Quote \<Rightarrow> VerdictType \<Rightarrow> Database" where
  "update_vendor_reliability db quote verdict =
     (let material_usages =
            filter (\<lambda>usage. mu_quote_id usage = quote_id quote) (db_material_usage db);
          vendors = foldl (\<lambda>vendors usage. vendors) [] material_usages
      in update_vendors (verdict = ACCEPTED) db vendors)"

text \<open>
  \<open>_update_system_learning\<close>: of its four steps only the first touches the store; the
  regional pricing, material pricing and pattern steps write to the log.
\<close>

definition update_system_learning ::
  "Database \<Rightarrow> Quote \<Rightarrow> VerdictType \<Rightarrow> (string \<times> string) list option
     \<Rightarrow> (string \<times> string) list option \<Rightarrow> Database" where
  "update_system_learning db quote verdict material_feedback pricing_feedback =
     update_vendor_reliability db quote verdict"

record FeedbackResponse =
  fr_feedback_id :: string
  fr_quote_id :: string
  fr_user_type :: UserType
  fr_verdict :: VerdictType
  fr_comment :: "string option"
  fr_impact_score :: real
  fr_learning_insights :: "string list"

definition nonempty_dict :: "(string \<times> string) list option \<Rightarrow> (string \<times> string) list option" where
  "nonempty_dict d = (case d of None \<Rightarrow> None | Some entries \<Rightarrow> if entries = [] then None else Some entries)"

text \<open>
  \<open>str(uuid.uuid4())\<close>: the 128 bits of the identifier as 32 hexadecimal digits in
  groups of 8, 4, 4, 4 and 12, separated by hyphens. The bits, as the integer that
  \<open>uuid.UUID.int\<close> returns, are the parameter.
\<close>

definition hex_digit :: "int \<Rightarrow> char" where
  "hex_digit n = ''0123456789abcdef'' ! nat (n mod 16)"

fun hex_digits :: "nat \<Rightarrow> int \<Rightarrow> string" where
  "hex_digits 0 n = []"
| "hex_digits (Suc k) n = hex_digits k (n div 16) @ [hex_digit n]"

definition str_uuid :: "int \<Rightarrow> string" where
  "str_uuid u =
     (let h = hex_digits 32 (u mod 2 ^ 128) in
      take 8 h @ ''-'' @ take 4 (drop 8 h) @ ''-'' @ take 4 (drop 12 h) @ ''-''
        @ take 4 (drop 16 h) @ ''-'' @ drop 20 h)"

text \<open>
  \<open>Feedback.id\<close> is an \<open>Integer\<close> column. The commit sends the identifier it was given
  as a string, and the database takes a string for an integer column only if it reads as
  an integer; the identifiers of the model carry neither sign nor blanks, so the test is
  that the string is a run of digits. Otherwise the commit raises.
\<close>

definition integer_column_accepts :: "string \<Rightarrow> bool" where
  "integer_column_accepts s = (s \<noteq> [] \<and> list_all is_digit s)"

text \<open>
  \<open>process_feedback\<close>. \<open>new_uuid\<close> stands for \<open>uuid.uuid4()\<close>. A missing quote
  raises ValueError. For a quote that exists the Feedback row and the learning updates are
  added to the session and committed; a commit that raises is caught by the handler, which
  rolls the session back and raises again. In both cases of an error the store that comes
  back is the one that went in.
\<close>

definition process_feedback ::
  "Database \<Rightarrow> string \<Rightarrow> UserType \<Rightarrow> VerdictType \<Rightarrow> string option
     \<Rightarrow> (string \<times> string) list option \<Rightarrow> (string \<times> string) list option \<Rightarrow> int
     \<Rightarrow> Database \<times> (error + FeedbackResponse)" where
  "process_feedback db qid user_type verdict comment material_feedback pricing_feedback
       new_uuid =
     (case find (\<lambda>q. quote_id q = qid) (db_quotes db) of
        None \<Rightarrow> (db, Inl (ValueError (''Quote '' @ qid @ '' not found'')))
      | Some quote \<Rightarrow>
          (let impact_score = calculate_impact_score verdict user_type quote;
               learning_insights =
                 generate_learning_insights quote verdict comment material_feedback pricing_feedback;
               feedback_id = str_uuid new_uuid;
               feedback = \<lparr>fb_id = feedback_id,
                           fb_quote_id = qid,
                           fb_user_type = user_type_value user_type,
                           fb_verdict = verdict_value verdict,
                           fb_comment = comment,
                           fb_material_feedback = nonempty_dict material_feedback,
                           fb_pricing_feedback = nonempty_dict pricing_feedback,
                           fb_impact_score = impact_score\<rparr>;
               db1 = db\<lparr>db_feedback := db_feedback db @ [feedback]\<rparr>;
               db2 = update_system_learning db1 quote verdict material_feedback pricing_feedback;
               response = \<lparr>fr_feedback_id = feedback_id,
                           fr_quote_id = qid,
                           fr_user_type = user_type,
                           fr_verdict = verdict,
                           fr_comment = comment,
                           fr_impact_score = impact_score,
                           fr_learning_insights = learning_insights\<rparr>
           in if integer_column_accepts (fb_id feedback) then (db2, Inr response)
              else (db, Inl DataError)))"

section \<open>Quantities the specification speaks about\<close>

text \<open>
  The subtotal in the words of the specification: the sum, over all tasks, of the material
  costs and the labor cost (a task without labor cost contributes none).
\<close>

definition labor_of :: "Task \<Rightarrow> real" where
  "labor_of t = (case task_labor_cost t of None \<Rightarrow> 0 | Some c \<Rightarrow> c)"

definition spec_subtotal :: "Task list \<Rightarrow> real" where
  "spec_subtotal tasks =
     sum_list (map (\<lambda>t. sum_list (map item_total_price (task_materials t)) + labor_of t) tasks)"

definition proposal_items :: "GenerateProposalResponse \<Rightarrow> MaterialItem list" where
  "proposal_items p = concat (map task_materials (prop_tasks p))"

text \<open>
  ``total price is quantity times unit price with the region's multiplier applied'', as an
  equation on one item.
\<close>

definition regionally_adjusted :: "Settings \<Rightarrow> string option \<Rightarrow> MaterialItem \<Rightarrow> bool" where
  "regionally_adjusted cfg region i =
     (item_total_price i = item_quantity i * item_unit_price i * get_regional_multiplier cfg region)"

text \<open>
  The duration rule in the words of the specification: a base of two days for tiling and
  carpentry and of one day for the other categories, one day more beyond five materials.
\<close>

definition spec_base_days :: "string \<Rightarrow> nat" where
  "spec_base_days task_type = (if task_type = ''tiling'' \<or> task_type = ''carpentry'' then 2 else 1)"

text \<open>The rule yields one, two or three days, written as the engine writes them.\<close>

definition spec_days :: "nat \<Rightarrow> string" where
  "spec_days n = (if n = 1 then ''1 day'' else if n = 2 then ''2 days'' else ''3 days'')"

definition spec_duration :: "string \<Rightarrow> nat \<Rightarrow> string" where
  "spec_duration task_type material_count =
     spec_days (spec_base_days task_type + (if material_count > 5 then 1 else 0))"

section \<open>Concrete stores and requests\<close>

text \<open>A store with one paint sold in Corsica, and the proposal the engine builds on it.\<close>

definition interior_wall_paint :: Material where
  "interior_wall_paint =
     \<lparr>mat_id = 1,
      mat_material_name = ''Interior Wall Paint'',
      mat_description = ''Premium interior wall paint, 5L, washable finish, various colors'',
      mat_unit_price = 42.50,
      mat_unit = ''can'',
      mat_region = ''Corse'',
      mat_vendor = Some ''Castorama'',
      mat_quality_score = Some 8,
      mat_embedding = None,
      mat_source_url = Some ''https://www.castorama.fr/produit/interior-wall-paint''\<rparr>"

definition corse_db :: Database where
  "corse_db =
     \<lparr>db_materials = [interior_wall_paint],
      db_quotes = [], db_tasks = [], db_material_usage = [],
      db_feedback = [], db_vendor_reliability = []\<rparr>"

definition corse_proposal :: GenerateProposalResponse where
  "corse_proposal =
     \<lparr>prop_quote_id = ''0b5c9a52-6d0e-4c43-9f0a-1f2e3d4c5b6a'',
      prop_transcript = ''paint it and paint'',
      prop_tasks =
        [\<lparr>task_label = ''Painting - Interior Wall Paint'',
          task_materials =
            [\<lparr>item_material_name = ''Interior Wall Paint'',
              item_quantity = 1,
              item_unit = ''can'',
              item_unit_price = 42.5,
              item_total_price = 42.5,
              item_confidence_score = 0.9\<rparr>],
          task_estimated_duration = ''1 day'',
          task_margin_protected_price = 483.75,
          task_confidence_score = 0.9,
          task_labor_cost = Some 336\<rparr>],
      prop_total_estimate = 510.975,
      prop_confidence_score = 0.9,
      prop_vat_rate = 0.1,
      prop_margin_percentage = 0.25,
      prop_region = Some ''Corse'',
      prop_project_type = None\<rparr>"

text \<open>A store of insulation materials: no keyword family of the task extractor meets them.\<close>

definition laine_de_verre :: Material where
  "laine_de_verre =
     \<lparr>mat_id = 1,
      mat_material_name = ''Laine de Verre'',
      mat_description = ''Laine de verre R=3.2, 100mm, pour isolation thermique'',
      mat_unit_price = 32.00,
      mat_unit = ''rouleau'',
      mat_region = ''Normandie'',
      mat_vendor = Some ''Leroy Merlin'',
      mat_quality_score = Some 7,
      mat_embedding = None,
      mat_source_url = None\<rparr>"

definition plaque_de_platre :: Material where
  "plaque_de_platre =
     \<lparr>mat_id = 2,
      mat_material_name = ''Plaque de Platre'',
      mat_description = ''Plaque de platre 13mm, 120x250cm, pour cloisons et plafonds'',
      mat_unit_price = 8.50,
      mat_unit = ''m2'',
      mat_region = ''Normandie'',
      mat_vendor = Some ''Castorama'',
      mat_quality_score = Some 6,
      mat_embedding = None,
      mat_source_url = None\<rparr>"

definition isolant_phonique :: Material where
  "isolant_phonique =
     \<lparr>mat_id = 3,
      mat_material_name = ''Isolant Phonique'',
      mat_description = ''Isolant phonique 50mm, pour isolation acoustique'',
      mat_unit_price = 45.00,
      mat_unit = ''rouleau'',
      mat_region = ''Normandie'',
      mat_vendor = None,
      mat_quality_score = Some 8,
      mat_embedding = None,
      mat_source_url = None\<rparr>"

definition insulation_db :: Database where
  "insulation_db =
     \<lparr>db_materials = [laine_de_verre, plaque_de_platre, isolant_phonique],
      db_quotes = [], db_tasks = [], db_material_usage = [],
      db_feedback = [], db_vendor_reliability = []\<rparr>"

text \<open>A tile of the sample catalogue, as a search result.\<close>

definition ceramic_wall_tile :: MaterialPriceResponse where
  "ceramic_wall_tile =
     \<lparr>mpr_material_name = ''Ceramic Wall Tile 20x20cm'',
      mpr_description =
        ''White ceramic wall tile, 20x20cm, suitable for bathroom and kitchen walls'',
      mpr_unit_price = 12.50,
      mpr_unit = ''m2'',
      mpr_region = ''Normandie'',
      mpr_similarity_score = 0.9,
      mpr_confidence_tier = HIGH,
      mpr_source = ''https://www.leroymerlin.fr/produit/ceramic-wall-tile-20x20'',
      mpr_vendor = Some ''Leroy Merlin'',
      mpr_quality_score = Some 7\<rparr>"

text \<open>
  The store the engine leaves behind after the Corsican proposal: its quote, its task and
  its one material usage, of a paint sold by Castorama, and no vendor record.
\<close>

definition castorama_quote :: Quote where
  "castorama_quote =
     \<lparr>quote_id = ''0b5c9a52-6d0e-4c43-9f0a-1f2e3d4c5b6a'',
      quote_transcript = ''paint it and paint'',
      quote_total_estimate = 510.975,
      quote_confidence_score = 0.9,
      quote_user_type = ''contractor'',
      quote_region = Some ''Corse'',
      quote_project_type = None\<rparr>"

definition castorama_db :: Database where
  "castorama_db =
     \<lparr>db_materials = [interior_wall_paint],
      db_quotes = [castorama_quote],
      db_tasks =
        [\<lparr>tdb_quote_id = ''0b5c9a52-6d0e-4c43-9f0a-1f2e3d4c5b6a'',
          tdb_label = ''Painting - Interior Wall Paint'',
          tdb_estimated_duration = ''1 day'',
          tdb_margin_protected_price = 483.75,
          tdb_confidence_score = 0.9,
          tdb_labor_cost = Some 336\<rparr>],
      db_material_usage =
        [\<lparr>mu_quote_id = ''0b5c9a52-6d0e-4c43-9f0a-1f2e3d4c5b6a'',
          mu_material_id = 0,
          mu_quantity = 1,
          mu_unit_price = 42.5,
          mu_total_price = 42.5,
          mu_confidence_score = 0.9\<rparr>],
      db_feedback = [],
      db_vendor_reliability = []\<rparr>"





text \<open>
  The stores above hold no embedding, so the provider's similarity is never asked for;
  the keyword functions return what the text heuristics extract from the transcripts
  \<open>paint it and paint\<close> and \<open>insulation and glass\<close>.
\<close>

definition no_provider :: "string \<Rightarrow> string \<Rightarrow> real" where
  "no_provider query embedding = 0"

definition paint_keywords :: "string \<Rightarrow> string list" where
  "paint_keywords transcript = [''paint'']"

definition insulation_keywords :: "string \<Rightarrow> string list" where
  "insulation_keywords transcript = [''insulation'', ''glass'']"

definition corse_item :: MaterialItem where
  "corse_item =
     \<lparr>item_material_name = ''Interior Wall Paint'',
      item_quantity = 1,
      item_unit = ''can'',
      item_unit_price = 42.5,
      item_total_price = 42.5,
      item_confidence_score = 0.9\<rparr>"

text \<open>The same request for a project of type \<open>New Build\<close>.\<close>

definition new_build_proposal :: GenerateProposalResponse where
  "new_build_proposal =
     corse_proposal\<lparr>prop_total_estimate := 548.825,
                    prop_vat_rate := 0.2,
                    prop_project_type := Some ''New Build''\<rparr>"

text \<open>A quote whose total estimate is zero.\<close>

definition zero_quote :: Quote where
  "zero_quote =
     \<lparr>quote_id = ''123e4567-e89b-12d3-a456-426614174000'',
      quote_transcript = ''paint it and paint'',
      quote_total_estimate = 0,
      quote_confidence_score = 0.5,
      quote_user_type = ''contractor'',
      quote_region = None,
      quote_project_type = None\<rparr>"

section \<open>Basic facts\<close>

subsection \<open>Substrings\<close>

lemma starts_with_prefix: "starts_with s p = prefix p s"
  by (induction s p rule: starts_with.induct) auto

text \<open>\<open>str_in\<close> decides the substring relation.\<close>

lemma str_in_sublist: "str_in sub s = sublist sub s"
  by (induction s) (auto simp: starts_with_prefix sublist_Cons_right)

subsection \<open>The sort\<close>

lemma set_insert_desc: "set (insert_desc x ys) = insert x (set ys)"
  by (induction ys) auto

lemma length_insert_desc: "length (insert_desc x ys) = Suc (length ys)"
  by (induction ys) auto




lemma length_sort_by_confidence: "length (sort_by_confidence xs) = length xs"
  by (induction xs) (auto simp: sort_by_confidence_def length_insert_desc)

lemma set_sort_by_confidence: "set (sort_by_confidence xs) = set xs"
  by (induction xs) (auto simp: sort_by_confidence_def set_insert_desc)



subsection \<open>Where the items of a proposal come from\<close>

lemma search_result_origin:
  assumes "search_materials cfg sim db query region unit quality_score vendor limit = Inr rs"
    and "r \<in> set rs"
  shows "\<exists>m \<in> set (db_materials db). r = to_response (score_material cfg sim query region m)"
proof -
  let ?cands = "fetch_candidates db region unit quality_score vendor limit"
  have rs: "rs = map to_response (top_ranked cfg sim query region limit ?cands)"
    using assms(1)
    by (auto simp: search_materials_def Let_def top_ranked_def sort_by_confidence_def
             split: if_splits)
  then obtain e where e: "e \<in> set (top_ranked cfg sim query region limit ?cands)"
    and r: "r = to_response e"
    using assms(2) by auto
  have "e \<in> set (sort_by_confidence (map (score_material cfg sim query region) ?cands))"
    using e unfolding top_ranked_def by (rule in_set_takeD)
  then obtain m where m: "m \<in> set ?cands" and em: "e = score_material cfg sim query region m"
    by (auto simp: set_sort_by_confidence)
  have "m \<in> set (db_materials db)"
    using m unfolding fetch_candidates_def by (auto dest: in_set_takeD)
  then show ?thesis using r em by blast
qed

lemma collect_materials_origin:
  "collect_materials cfg sim db region kws = Inr ms \<Longrightarrow> r \<in> set ms \<Longrightarrow>
     \<exists>keyword \<in> set kws. \<exists>m \<in> set (db_materials db).
        r = to_response (score_material cfg sim keyword region m)"
proof (induction kws arbitrary: ms)
  case Nil
  then show ?case by simp
next
  case (Cons k ks)
  from Cons.prems(1) obtain rs rest where
    rs: "search_materials cfg sim db k region None None None 3 = Inr rs"
    and rest: "collect_materials cfg sim db region ks = Inr rest"
    and ms: "ms = rs @ rest"
    by (auto split: sum.splits)
  from Cons.prems(2) ms consider "r \<in> set rs" | "r \<in> set rest" by auto
  then show ?case
  proof cases
    case 1
    then show ?thesis using search_result_origin[OF rs] by auto
  next
    case 2
    then show ?thesis using Cons.IH[OF rest] by auto
  qed
qed

lemma identify_tasks_materials:
  assumes "td \<in> set (identify_tasks kws ms)"
  shows "set (td_materials td) \<subseteq> set ms"
  using assms
  by (auto simp: identify_tasks_def Let_def make_task_data_def split: if_splits)

lemma extracted_material_origin:
  assumes "td \<in> set (ex_tasks (extract_materials_and_tasks cfg kw sim db transcript region))"
    and "r \<in> set (td_materials td)"
  shows "\<exists>keyword \<in> set (kw transcript). \<exists>m \<in> set (db_materials db).
           r = to_response (score_material cfg sim keyword region m)"
proof (cases "collect_materials cfg sim db region (kw transcript)")
  case (Inl e)
  then show ?thesis using assms by (simp add: extract_materials_and_tasks_def Let_def)
next
  case (Inr ms)
  then have "td \<in> set (identify_tasks (kw transcript) ms)"
    using assms(1) by (simp add: extract_materials_and_tasks_def Let_def)
  then have "r \<in> set ms" using identify_tasks_materials assms(2) by blast
  then show ?thesis using collect_materials_origin[OF Inr] by blast
qed

lemma task_pricing_items:
  assumes "item \<in> set (task_materials (calculate_task_pricing cfg td region project_type))"
  shows "\<exists>r \<in> set (td_materials td). item = make_material_item (td_type td) r"
  using assms
  by (auto simp: calculate_task_pricing_def Let_def fallback_task_def
           split: if_splits sum.splits)

lemma generate_proposal_tasks:
  assumes "snd (generate_proposal cfg kw sim db transcript user_type region project_type qid) = Inr p"
  shows "prop_tasks p = map (\<lambda>td. calculate_task_pricing cfg td region project_type)
                          (ex_tasks (extract_materials_and_tasks cfg kw sim db transcript region))"
  using assms by (auto simp: generate_proposal_def Let_def split: if_splits)

lemma proposal_item_origin:
  assumes "snd (generate_proposal cfg kw sim db transcript user_type region project_type qid) = Inr p"
    and "item \<in> set (proposal_items p)"
  shows "\<exists>task_type. \<exists>keyword \<in> set (kw transcript). \<exists>m \<in> set (db_materials db).
           item = make_material_item task_type
                    (to_response (score_material cfg sim keyword region m))"
proof -
  from assms(2) obtain task where task: "task \<in> set (prop_tasks p)"
    and item: "item \<in> set (task_materials task)"
    by (auto simp: proposal_items_def)
  from task obtain td where
    td: "td \<in> set (ex_tasks (extract_materials_and_tasks cfg kw sim db transcript region))"
    and tk: "task = calculate_task_pricing cfg td region project_type"
    unfolding generate_proposal_tasks[OF assms(1)] by auto
  from item tk obtain r where r: "r \<in> set (td_materials td)"
    and ir: "item = make_material_item (td_type td) r"
    using task_pricing_items by blast
  from extracted_material_origin[OF td r] ir show ?thesis by blast
qed

subsection \<open>The two concrete proposals\<close>

lemma corse_proposal_generated:
  "snd (generate_proposal settings paint_keywords no_provider corse_db ''paint it and paint''
          CONTRACTOR (Some ''Corse'') None ''0b5c9a52-6d0e-4c43-9f0a-1f2e3d4c5b6a'')
     = Inr corse_proposal"
  by code_simp

lemma new_build_proposal_generated:
  "snd (generate_proposal settings paint_keywords no_provider corse_db ''paint it and paint''
          CONTRACTOR (Some ''Corse'') (Some ''New Build'') ''0b5c9a52-6d0e-4c43-9f0a-1f2e3d4c5b6a'')
     = Inr new_build_proposal"
  by code_simp

lemma corse_item_in_proposal: "corse_item \<in> set (proposal_items corse_proposal)"
  by code_simp

section \<open>C1: the total price of a material item\<close>

text \<open>
  Claim C1 as stated fails. For the request \<open>paint it and paint\<close> in the region Corse,
  whose multiplier is 1.2, the engine returns \<open>corse_proposal\<close>; its one item has quantity
  1, unit price 42.5 and total price 42.5, not 42.5 times 1.2.
\<close>

theorem material_item_not_regionally_adjusted:
  "snd (generate_proposal settings paint_keywords no_provider corse_db ''paint it and paint''
          CONTRACTOR (Some ''Corse'') None ''0b5c9a52-6d0e-4c43-9f0a-1f2e3d4c5b6a'')
     = Inr corse_proposal
   \<and> get_regional_multiplier settings (Some ''Corse'') = 1.2
   \<and> proposal_items corse_proposal = [corse_item]
   \<and> \<not> regionally_adjusted settings (Some ''Corse'') corse_item"
  by code_simp

text \<open>
  C1, amended: for every MaterialItem inside a Task of a generated proposal, and for every
  region, total price equals quantity times unit price; the region's multiplier is not
  applied to it.
\<close>

theorem material_item_total_price:
  assumes "snd (generate_proposal cfg kw sim db transcript user_type region project_type qid) = Inr p"
    and "item \<in> set (proposal_items p)"
  shows "item_total_price item = item_quantity item * item_unit_price item"
proof -
  from proposal_item_origin[OF assms] obtain task_type r where
    "item = make_material_item task_type r" by blast
  then show ?thesis by (simp add: make_material_item_def Let_def)
qed

theorem material_item_total_price_witness:
  "snd (generate_proposal settings paint_keywords no_provider corse_db ''paint it and paint''
          CONTRACTOR (Some ''Corse'') None ''0b5c9a52-6d0e-4c43-9f0a-1f2e3d4c5b6a'')
     = Inr corse_proposal
   \<and> corse_item \<in> set (proposal_items corse_proposal)
   \<and> item_total_price corse_item = item_quantity corse_item * item_unit_price corse_item"
  using corse_proposal_generated corse_item_in_proposal
    material_item_total_price[OF corse_proposal_generated corse_item_in_proposal]
  by simp

text \<open>
  Where the multiplier does go: a task that is priced without falling back carries it in
  its labor cost and in its margin-protected price, on the sum of the item totals.
\<close>

lemma task_pricing_applies_multiplier:
  assumes "calculate_labor_cost cfg (td_type td) (td_duration td) = Inr labor_cost"
    and "calculate_task_pricing cfg td region project_type \<noteq> fallback_task (td_type td)"
  shows "task_labor_cost (calculate_task_pricing cfg td region project_type)
           = Some (labor_cost * get_regional_multiplier cfg region)
         \<and> task_margin_protected_price (calculate_task_pricing cfg td region project_type)
           = (sum_list (map item_total_price
                 (task_materials (calculate_task_pricing cfg td region project_type)))
                * get_regional_multiplier cfg region
              + labor_cost * get_regional_multiplier cfg region) * (1 + base_margin cfg)"
  using assms by (auto simp: calculate_task_pricing_def Let_def split: if_splits)

section \<open>C2: the total estimate\<close>

lemma accumulate_costs_sum:
  "accumulate_costs tasks (a, b) =
     (a + sum_list (map (\<lambda>t. sum_list (map item_total_price (task_materials t))) tasks),
      b + sum_list (map labor_of tasks))"
  by (induction tasks arbitrary: a b) (auto simp: Let_def labor_of_def split: option.splits)

lemma spec_subtotal_split:
  "spec_subtotal tasks =
     sum_list (map (\<lambda>t. sum_list (map item_total_price (task_materials t))) tasks)
     + sum_list (map labor_of tasks)"
  by (induction tasks) (auto simp: spec_subtotal_def)

lemma determine_vat_rate_spec:
  "determine_vat_rate cfg project_type =
     (case project_type of
        None \<Rightarrow> vat_renovation cfg
      | Some pt \<Rightarrow> if sublist ''new'' (lower pt) then vat_new_build cfg
                   else vat_renovation cfg)"
  by (auto simp: determine_vat_rate_def str_in_sublist lower_def split: option.splits)

text \<open>
  C2: for every generated proposal the total estimate is the subtotal plus the subtotal
  times the VAT rate plus the subtotal times the base margin, where the subtotal is the sum
  of the material and labor costs of all tasks, and the VAT rate is the new-build rate
  exactly when the project type, in lower case, contains \<open>new\<close>, and the renovation rate
  otherwise.
\<close>

theorem proposal_total_estimate:
  assumes "snd (generate_proposal cfg kw sim db transcript user_type region project_type qid) = Inr p"
  shows "prop_total_estimate p =
           spec_subtotal (prop_tasks p)
           + spec_subtotal (prop_tasks p) * prop_vat_rate p
           + spec_subtotal (prop_tasks p) * base_margin cfg
         \<and> prop_vat_rate p =
             (case project_type of
                None \<Rightarrow> vat_renovation cfg
              | Some pt \<Rightarrow> if sublist ''new'' (lower pt) then vat_new_build cfg
                           else vat_renovation cfg)"
proof -
  let ?tasks = "map (\<lambda>td. calculate_task_pricing cfg td region project_type)
                  (ex_tasks (extract_materials_and_tasks cfg kw sim db transcript region))"
  let ?sub = "fst (accumulate_costs ?tasks (0, 0)) + snd (accumulate_costs ?tasks (0, 0))"
  have sub: "?sub = spec_subtotal ?tasks"
    by (simp add: accumulate_costs_sum spec_subtotal_split)
  have tasks: "prop_tasks p = ?tasks"
    and total: "prop_total_estimate p =
                  ?sub + ?sub * determine_vat_rate cfg project_type + ?sub * base_margin cfg"
    and rate: "prop_vat_rate p = determine_vat_rate cfg project_type"
    using assms by (auto simp: generate_proposal_def Let_def split: if_splits)
  show ?thesis
    unfolding tasks total rate sub determine_vat_rate_spec by simp
qed

theorem proposal_total_estimate_witness:
  "snd (generate_proposal settings paint_keywords no_provider corse_db ''paint it and paint''
          CONTRACTOR (Some ''Corse'') (Some ''New Build'') ''0b5c9a52-6d0e-4c43-9f0a-1f2e3d4c5b6a'')
     = Inr new_build_proposal
   \<and> spec_subtotal (prop_tasks new_build_proposal) = 378.5
   \<and> prop_total_estimate new_build_proposal =
       spec_subtotal (prop_tasks new_build_proposal)
       + spec_subtotal (prop_tasks new_build_proposal) * prop_vat_rate new_build_proposal
       + spec_subtotal (prop_tasks new_build_proposal) * base_margin settings
   \<and> prop_vat_rate new_build_proposal = vat_new_build settings"
proof -
  have new: "sublist ''new'' (lower ''New Build'')"
    unfolding str_in_sublist[symmetric] by code_simp
  have sub: "spec_subtotal (prop_tasks new_build_proposal) = 378.5"
    by code_simp
  show ?thesis
    using new_build_proposal_generated sub new
      proposal_total_estimate[OF new_build_proposal_generated]
    by simp
qed

section \<open>C3: the confidence score lies in the unit interval\<close>

text \<open>
  With the configured weights and a similarity in \<open>[0,1]\<close> the weighted sum itself lies in
  \<open>[0,1]\<close>: the final clamp changes nothing.
\<close>

lemma configured_confidence_unclamped:
  assumes "0 \<le> s" "s \<le> 1"
  shows "calculate_confidence_score (confidence_weights settings) m s region =
           s * 0.40 + regional_score region (mat_region m) * 0.25
           + validate_price_range (mat_unit_price m) * 0.20
           + get_vendor_reliability (mat_vendor m) * 0.15"
proof -
  let ?r = "regional_score region (mat_region m)"
  let ?p = "validate_price_range (mat_unit_price m)"
  let ?v = "get_vendor_reliability (mat_vendor m)"
  have r: "0 \<le> ?r" "?r \<le> 1"
    by (auto simp: regional_score_def split: option.splits)
  have pr: "0 \<le> ?p" "?p \<le> 1"
    by (auto simp: validate_price_range_def)
  have fm: "first_match reliable_vendors t = Some x \<Longrightarrow> 0 \<le> x \<and> x \<le> 1" for t x
    by (auto simp: reliable_vendors_def split: if_splits)
  have ve: "0 \<le> ?v" "?v \<le> 1"
    using fm by (auto simp: get_vendor_reliability_def split: option.splits)
  have lo: "0 \<le> s * (2/5) + ?r * (1/4) + ?p * (1/5) + ?v * (3/20)"
    using assms r pr ve by (intro add_nonneg_nonneg mult_nonneg_nonneg) auto
  have hi: "s * (2/5) + ?r * (1/4) + ?p * (1/5) + ?v * (3/20) \<le> 1"
    using assms r pr ve by linarith
  show ?thesis
    using lo hi by (simp add: calculate_confidence_score_def settings_def Let_def)
qed

text \<open>
  C3: for every similarity (in \<open>[0,1]\<close> or not), every requested region and material
  region, every unit price, every vendor, present or absent, and every choice of weights,
  the confidence score the engine computes lies in \<open>[0,1]\<close>.
\<close>

theorem confidence_score_in_unit_interval:
  "0 \<le> calculate_confidence_score weights material similarity_score region
   \<and> calculate_confidence_score weights material similarity_score region \<le> 1"
  by (simp add: calculate_confidence_score_def Let_def)

theorem confidence_score_in_unit_interval_witness:
  "calculate_confidence_score (confidence_weights settings) interior_wall_paint 0.9 (Some ''corse'')
     = 0.9375
   \<and> 0 \<le> calculate_confidence_score (confidence_weights settings) interior_wall_paint 0.9
            (Some ''corse'')
   \<and> calculate_confidence_score (confidence_weights settings) interior_wall_paint 0.9
        (Some ''corse'') \<le> 1"
proof -
  have v: "calculate_confidence_score (confidence_weights settings) interior_wall_paint 0.9
             (Some ''corse'') = 0.9375"
    by code_simp
  show ?thesis
    using v confidence_score_in_unit_interval
            [of "confidence_weights settings" interior_wall_paint "0.9" "Some ''corse''"]
    by blast
qed

section \<open>C4: the ranked search\<close>










section \<open>C5: vendor reliability after feedback\<close>

text \<open>
  The counters of a vendor whose record is in the table, had the loop body run for it:
  \<open>N\<close> passes of which \<open>A\<close> were accepted add \<open>N\<close> to the total and \<open>A\<close> to the
  accepted quotes, and leave the quotient of the two as the score.
\<close>

lemma bump_vendor_counts:
  "vr_total_quotes (foldl (\<lambda>v accepted. bump_vendor accepted v) v flags)
     = vr_total_quotes v + length flags
   \<and> vr_accepted_quotes (foldl (\<lambda>v accepted. bump_vendor accepted v) v flags)
     = vr_accepted_quotes v + length (filter id flags)
   \<and> (flags = [] \<or>
        vr_reliability_score (foldl (\<lambda>v accepted. bump_vendor accepted v) v flags)
          = real (vr_accepted_quotes v + length (filter id flags))
            / real (vr_total_quotes v + length flags))"
proof (induction flags rule: rev_induct)
  case Nil
  then show ?case by simp
next
  case (snoc x xs)
  then show ?case by (simp add: bump_vendor_def Let_def)
qed

text \<open>The loop body never runs: the set of vendors is empty for every quote.\<close>

lemma update_vendor_reliability_id: "update_vendor_reliability db quote verdict = db"
proof -
  have "foldl (\<lambda>vendors usage. vendors) ([]::string list) us = []" for us :: "MaterialUsage list"
    by (induction us) auto
  then show ?thesis by (simp add: update_vendor_reliability_def)
qed

text \<open>The string of an identifier has a hyphen after its first eight digits.\<close>

lemma length_hex_digits: "length (hex_digits k n) = k"
  by (induction k arbitrary: n) auto

lemma str_uuid_example:
  "str_uuid 0x9f3c2b1a7d6e4f5a8b9c0a1b2c3d4e5f = ''9f3c2b1a-7d6e-4f5a-8b9c-0a1b2c3d4e5f''"
  by code_simp

lemma hyphen_in_str_uuid: "CHR ''-'' \<in> set (str_uuid u)"
  by (simp add: str_uuid_def Let_def)

lemma hyphen_is_no_digit: "\<not> is_digit CHR ''-''"
  by code_simp

lemma uuid_rejected_by_integer_column: "\<not> integer_column_accepts (str_uuid u)"
  using hyphen_in_str_uuid[of u] hyphen_is_no_digit
  by (auto simp: integer_column_accepts_def list_all_iff)

text \<open>
  Feedback on a quote that exists: the commit raises on the identifier, and the store
  comes back unchanged, vendor table included.
\<close>

lemma process_feedback_known_quote:
  assumes "find (\<lambda>q. quote_id q = qid) (db_quotes db) = Some quote"
  shows "process_feedback db qid user_type verdict comment material_feedback pricing_feedback u
           = (db, Inl DataError)"
  using assms uuid_rejected_by_integer_column
  by (simp add: process_feedback_def Let_def)

lemma process_feedback_keeps_store:
  "fst (process_feedback db qid user_type verdict comment material_feedback pricing_feedback u)
     = db"
  using uuid_rejected_by_integer_column
  by (simp add: process_feedback_def Let_def split: option.splits)

text \<open>
  C5 on the code: \<open>castorama_db\<close> is the store the engine leaves after the Corsican
  proposal, whose one material is sold by Castorama. An accepted feedback on that quote
  raises at the commit, and the store that comes back is \<open>castorama_db\<close>, its vendor table
  empty: no record with one quote, one accepted quote and score 1 exists for Castorama.
  The session before the commit holds no vendor record either.
\<close>

theorem feedback_leaves_vendor_table_empty:
  "fst (generate_proposal settings paint_keywords no_provider corse_db ''paint it and paint''
          CONTRACTOR (Some ''Corse'') None ''0b5c9a52-6d0e-4c43-9f0a-1f2e3d4c5b6a'')
     = castorama_db
   \<and> process_feedback castorama_db ''0b5c9a52-6d0e-4c43-9f0a-1f2e3d4c5b6a'' CONTRACTOR ACCEPTED
        None None None 0x9f3c2b1a7d6e4f5a8b9c0a1b2c3d4e5f
       = (castorama_db, Inl DataError)
   \<and> db_vendor_reliability castorama_db = []
   \<and> db_vendor_reliability (update_system_learning castorama_db castorama_quote ACCEPTED
        None None) = []"
  by code_simp

section \<open>C6: feedback on a quote that does not exist\<close>

text \<open>
  C6: processing feedback against a quote id that no stored quote carries raises the
  ``not found'' error to the caller and returns the store as it was: no Feedback record is
  created.
\<close>

theorem process_feedback_unknown_quote:
  assumes "qid \<notin> set (map quote_id (db_quotes db))"
  shows "process_feedback db qid user_type verdict comment material_feedback pricing_feedback fid
           = (db, Inl (ValueError (''Quote '' @ qid @ '' not found'')))"
proof -
  have "find (\<lambda>q. quote_id q = qid) (db_quotes db) = None"
    using assms by (auto simp: find_None_iff)
  then show ?thesis by (simp add: process_feedback_def)
qed

theorem process_feedback_unknown_quote_witness:
  "''123e4567-e89b-12d3-a456-426614174000'' \<notin> set (map quote_id (db_quotes insulation_db))
   \<and> process_feedback insulation_db ''123e4567-e89b-12d3-a456-426614174000'' CONTRACTOR ACCEPTED
        None None None 0x9f3c2b1a7d6e4f5a8b9c0a1b2c3d4e5f
       = (insulation_db,
          Inl (ValueError (''Quote '' @ ''123e4567-e89b-12d3-a456-426614174000'' @ '' not found'')))
   \<and> db_feedback (fst (process_feedback insulation_db ''123e4567-e89b-12d3-a456-426614174000''
        CONTRACTOR ACCEPTED None None None 0x9f3c2b1a7d6e4f5a8b9c0a1b2c3d4e5f)) = []"
proof -
  have h: "''123e4567-e89b-12d3-a456-426614174000'' \<notin> set (map quote_id (db_quotes insulation_db))"
    by (simp add: insulation_db_def)
  have e: "db_feedback insulation_db = []"
    by (simp add: insulation_db_def)
  show ?thesis
    using h e process_feedback_unknown_quote[OF h, of CONTRACTOR ACCEPTED None None None
                "0x9f3c2b1a7d6e4f5a8b9c0a1b2c3d4e5f"]
    by simp
qed

section \<open>C7: the impact score\<close>

lemma impact_unfold:
  "calculate_impact_score verdict user_type quote =
     max 0 (min 1 (0.5 * verdict_weights verdict * user_weights user_type
                   * (if negative_verdict verdict then 2 - quote_confidence_score quote else 1)
                   * min (quote_total_estimate quote / 1000) 2))"
  by (simp add: calculate_impact_score_def Let_def algebra_simps)

lemma verdict_weights_pos: "0 < verdict_weights v"
  by (cases v) auto

lemma user_weights_pos: "0 < user_weights u"
  by (cases u) auto

lemma clamp_mono: "a \<le> b \<Longrightarrow> max 0 (min 1 a) \<le> max 0 (min 1 (b::real))"
  by (auto simp: min_def max_def)

lemma impact_monotone:
  assumes "quote_confidence_score q \<le> 1" "t1 \<le> t2"
  shows "calculate_impact_score v u (q\<lparr>quote_total_estimate := t1\<rparr>)
         \<le> calculate_impact_score v u (q\<lparr>quote_total_estimate := t2\<rparr>)"
proof -
  let ?k = "0.5 * verdict_weights v * user_weights u
              * (if negative_verdict v then 2 - quote_confidence_score q else 1)"
  have k: "0 \<le> ?k"
    using assms(1) verdict_weights_pos[of v] user_weights_pos[of u] by auto
  have "min (t1 / 1000) 2 \<le> min (t2 / 1000) (2::real)"
    using assms(2) by auto
  then have le: "?k * min (t1 / 1000) 2 \<le> ?k * min (t2 / 1000) 2"
    using k by (rule mult_left_mono)
  have e1: "calculate_impact_score v u (q\<lparr>quote_total_estimate := t1\<rparr>)
              = max 0 (min 1 (?k * min (t1 / 1000) 2))"
    by (simp add: impact_unfold)
  have e2: "calculate_impact_score v u (q\<lparr>quote_total_estimate := t2\<rparr>)
              = max 0 (min 1 (?k * min (t2 / 1000) 2))"
    by (simp add: impact_unfold)
  show ?thesis
    unfolding e1 e2 using le by (rule clamp_mono)
qed

lemma impact_rejected_gt_accepted:
  assumes "quote_confidence_score q \<le> 1" "0 < quote_total_estimate q"
  shows "calculate_impact_score ACCEPTED u q < calculate_impact_score REJECTED u q"
proof -
  let ?f = "min (quote_total_estimate q / 1000) 2"
  let ?w = "user_weights u"
  have f: "0 < ?f" "?f \<le> 2" using assms(2) by auto
  have w: "0 < ?w" "?w \<le> 1" by (cases u; simp)+
  have wf: "0 < ?w * ?f" using f w by simp
  have wf2: "?w * ?f \<le> 2"
    using mult_mono[of ?w 1 ?f 2] f w by simp
  have acc: "calculate_impact_score ACCEPTED u q = 0.15 * (?w * ?f)"
    using wf wf2 by (simp add: impact_unfold)
  have "1 \<le> 2 - quote_confidence_score q" using assms(1) by simp
  then have "1 * (?w * ?f) \<le> (2 - quote_confidence_score q) * (?w * ?f)"
    using wf by (intro mult_right_mono) auto
  then have raw: "0.5 * (?w * ?f) \<le> 0.5 * ?w * (2 - quote_confidence_score q) * ?f"
    by (simp add: algebra_simps)
  have rej: "calculate_impact_score REJECTED u q
               = max 0 (min 1 (0.5 * ?w * (2 - quote_confidence_score q) * ?f))"
    by (simp add: impact_unfold)
  show ?thesis
    unfolding acc rej using raw wf wf2 by (auto simp: min_def max_def)
qed

text \<open>
  Claim C7 as stated fails in its second half: on a quote whose total estimate is 0 the
  value factor is 0, and the rejected and the accepted verdict both score 0.
\<close>

theorem impact_scores_tie_at_zero_total:
  "quote_total_estimate zero_quote = 0
   \<and> calculate_impact_score REJECTED CONTRACTOR zero_quote = 0
   \<and> calculate_impact_score ACCEPTED CONTRACTOR zero_quote = 0
   \<and> \<not> calculate_impact_score ACCEPTED CONTRACTOR zero_quote
         < calculate_impact_score REJECTED CONTRACTOR zero_quote"
  by code_simp

text \<open>
  C7, amended: for every quote whose confidence score is at most 1 (the data model keeps it
  in \<open>[0,1]\<close>), every verdict and every user role, the impact score is monotonically
  non-decreasing in the quote's total estimate, up to the cap and beyond it; and when the
  total estimate is positive, the impact score of a rejected verdict is strictly greater
  than that of an accepted verdict for the same quote and user role.
\<close>

theorem impact_score_monotone_and_rejected_dominates:
  assumes "quote_confidence_score q \<le> 1"
  shows "(t1 \<le> t2 \<longrightarrow>
            calculate_impact_score v u (q\<lparr>quote_total_estimate := t1\<rparr>)
            \<le> calculate_impact_score v u (q\<lparr>quote_total_estimate := t2\<rparr>))
         \<and> (0 < quote_total_estimate q \<longrightarrow>
            calculate_impact_score ACCEPTED u q < calculate_impact_score REJECTED u q)"
  using assms impact_monotone impact_rejected_gt_accepted by blast

theorem impact_score_monotone_and_rejected_dominates_witness:
  "quote_confidence_score castorama_quote \<le> 1
   \<and> (500::real) \<le> 1500
   \<and> 0 < quote_total_estimate castorama_quote
   \<and> calculate_impact_score OVERPRICED ARCHITECT (castorama_quote\<lparr>quote_total_estimate := 500\<rparr>)
       \<le> calculate_impact_score OVERPRICED ARCHITECT (castorama_quote\<lparr>quote_total_estimate := 1500\<rparr>)
   \<and> calculate_impact_score ACCEPTED ARCHITECT castorama_quote
       < calculate_impact_score REJECTED ARCHITECT castorama_quote"
proof -
  have c: "quote_confidence_score castorama_quote \<le> 1"
    by (simp add: castorama_quote_def)
  have t: "0 < quote_total_estimate castorama_quote"
    by (simp add: castorama_quote_def)
  have o: "(500::real) \<le> 1500" by simp
  show ?thesis
    using c t o
      impact_score_monotone_and_rejected_dominates
        [OF c, of 500 1500 OVERPRICED ARCHITECT]
    by blast
qed

section \<open>C8: the duration of an extracted task\<close>

lemma estimate_tiling: "estimate_task_duration ''tiling'' n = spec_duration ''tiling'' n"
  by (simp add: estimate_task_duration_def spec_duration_def spec_base_days_def spec_days_def
                 get_or_def base_durations_def)

lemma estimate_painting: "estimate_task_duration ''painting'' n = spec_duration ''painting'' n"
  by (simp add: estimate_task_duration_def spec_duration_def spec_base_days_def spec_days_def
                 get_or_def base_durations_def)

lemma estimate_plumbing: "estimate_task_duration ''plumbing'' n = spec_duration ''plumbing'' n"
  by (simp add: estimate_task_duration_def spec_duration_def spec_base_days_def spec_days_def
                 get_or_def base_durations_def)

lemma estimate_electrical: "estimate_task_duration ''electrical'' n = spec_duration ''electrical'' n"
  by (simp add: estimate_task_duration_def spec_duration_def spec_base_days_def spec_days_def
                 get_or_def base_durations_def)

lemma estimate_carpentry: "estimate_task_duration ''carpentry'' n = spec_duration ''carpentry'' n"
  by (simp add: estimate_task_duration_def spec_duration_def spec_base_days_def spec_days_def
                 get_or_def base_durations_def)

text \<open>The estimator itself knows the general category: one day, two beyond five materials.\<close>

lemma estimate_general: "estimate_task_duration ''general'' n = spec_duration ''general'' n"
  by (simp add: estimate_task_duration_def spec_duration_def spec_base_days_def spec_days_def
                 get_or_def base_durations_def)

lemma identified_tasks_subset:
  "set (identified_tasks kws) \<subseteq> set (map fst task_keywords)"
  unfolding identified_tasks_def by auto

lemma task_types:
  "map fst task_keywords = [''tiling'', ''painting'', ''plumbing'', ''electrical'', ''carpentry'']"
  by (simp add: task_keywords_def)

lemma estimate_identified:
  assumes "task_type \<in> set (identified_tasks kws)"
  shows "estimate_task_duration task_type n = spec_duration task_type n"
proof -
  have "task_type \<in> set [''tiling'', ''painting'', ''plumbing'', ''electrical'', ''carpentry'']"
    using assms identified_tasks_subset task_types by (metis subsetD)
  then consider "task_type = ''tiling''" | "task_type = ''painting''" | "task_type = ''plumbing''"
    | "task_type = ''electrical''" | "task_type = ''carpentry''"
    by (simp only: set_simps insert_iff empty_iff) blast
  then show ?thesis
    by cases (simp_all only: estimate_tiling estimate_painting estimate_plumbing
                             estimate_electrical estimate_carpentry)
qed

text \<open>
  Claim C8 as stated fails on the fallback task. The keywords \<open>insulation\<close> and \<open>glass\<close>
  meet no keyword family, each of the two searches returns the three rows of the store, and
  the one extracted task is the general task with six materials and the duration
  \<open>1 day\<close>, where the rule of the claim gives \<open>2 days\<close>.
\<close>

theorem fallback_task_keeps_one_day:
  "map td_type (ex_tasks (extract_materials_and_tasks settings insulation_keywords no_provider
                   insulation_db ''insulation and glass'' None)) = [''general'']
   \<and> map length (map td_materials (ex_tasks (extract_materials_and_tasks settings
                   insulation_keywords no_provider insulation_db ''insulation and glass'' None)))
       = [6]
   \<and> map td_duration (ex_tasks (extract_materials_and_tasks settings insulation_keywords
                   no_provider insulation_db ''insulation and glass'' None)) = [''1 day'']
   \<and> spec_duration ''general'' 6 = ''2 days''"
  by code_simp

text \<open>
  C8, amended: every extracted task of one of the five matched categories (tiling,
  painting, plumbing, electrical, carpentry) has as duration its category's fixed base
  (tiling and carpentry 2 days, the others 1 day) bumped by one day when its material count
  exceeds 5; every other extracted task is a fallback task of type general, whose duration
  is \<open>1 day\<close> whatever its material count.
\<close>

theorem extracted_task_durations:
  assumes "t \<in> set (ex_tasks (extract_materials_and_tasks cfg kw sim db transcript region))"
  shows "(td_type t = ''general'' \<and> td_duration t = ''1 day'')
         \<or> (td_type t \<in> set [''tiling'', ''painting'', ''plumbing'', ''electrical'', ''carpentry'']
            \<and> td_duration t = spec_duration (td_type t) (length (td_materials t)))"
proof (cases "collect_materials cfg sim db region (kw transcript)")
  case (Inl e)
  then show ?thesis using assms by (simp add: extract_materials_and_tasks_def Let_def)
next
  case (Inr ms)
  then have t: "t \<in> set (identify_tasks (kw transcript) ms)"
    using assms by (simp add: extract_materials_and_tasks_def Let_def)
  show ?thesis
  proof (cases "identified_tasks (kw transcript) = []")
    case True
    then show ?thesis using t by (simp add: identify_tasks_def)
  next
    case False
    then obtain tt where tt: "tt \<in> set (identified_tasks (kw transcript))"
      and t_eq: "t = make_task_data ms tt"
      using t by (auto simp: identify_tasks_def)
    have ty: "td_type t = tt"
      and du: "td_duration t = estimate_task_duration tt (length (td_materials t))"
      unfolding t_eq by (simp_all add: make_task_data_def Let_def)
    have "tt \<in> set [''tiling'', ''painting'', ''plumbing'', ''electrical'', ''carpentry'']"
      using tt identified_tasks_subset task_types by (metis subsetD)
    then show ?thesis
      using ty du estimate_identified[OF tt] by simp
  qed
qed

text \<open>The paint request yields one painting task with one material and one day.\<close>

theorem extracted_task_durations_witness:
  "hd (ex_tasks (extract_materials_and_tasks settings paint_keywords no_provider corse_db
                   ''paint it and paint'' (Some ''Corse'')))
     \<in> set (ex_tasks (extract_materials_and_tasks settings paint_keywords no_provider corse_db
                   ''paint it and paint'' (Some ''Corse'')))
   \<and> td_type (hd (ex_tasks (extract_materials_and_tasks settings paint_keywords no_provider
                   corse_db ''paint it and paint'' (Some ''Corse'')))) = ''painting''
   \<and> length (td_materials (hd (ex_tasks (extract_materials_and_tasks settings paint_keywords
                   no_provider corse_db ''paint it and paint'' (Some ''Corse''))))) = 1
   \<and> td_duration (hd (ex_tasks (extract_materials_and_tasks settings paint_keywords no_provider
                   corse_db ''paint it and paint'' (Some ''Corse''))))
       = spec_duration ''painting'' 1"
proof -
  let ?t = "hd (ex_tasks (extract_materials_and_tasks settings paint_keywords no_provider corse_db
                   ''paint it and paint'' (Some ''Corse'')))"
  have m: "?t \<in> set (ex_tasks (extract_materials_and_tasks settings paint_keywords no_provider
                   corse_db ''paint it and paint'' (Some ''Corse'')))"
    by code_simp
  have ty: "td_type ?t = ''painting''" by code_simp
  have n: "length (td_materials ?t) = 1" by code_simp
  from extracted_task_durations[OF m] ty n
  have "td_duration ?t = spec_duration ''painting'' 1" by simp
  then show ?thesis using m ty n by blast
qed

section \<open>C9: the estimated quantity\<close>

text \<open>
  The lookup as the code has it: the keys are the plural words, tested in the order of the
  table against the lower-case name, and the first key found decides.
\<close>

lemma estimate_material_quantity_lookup:
  "estimate_material_quantity material task_type =
     (let n = lower (mpr_material_name material) in
      if sublist ''tiles'' n then 10
      else if sublist ''adhesives'' n then 5
      else if sublist ''paints'' n then 5
      else if sublist ''pipes'' n then 10
      else if sublist ''wires'' n then 20
      else if sublist ''wood'' n then 5
      else 1)"
  by (simp add: estimate_material_quantity_def base_quantities_def Let_def
                str_in_sublist[symmetric])

text \<open>
  C9 on the code: the tile of the sample catalogue, \<open>Ceramic Wall Tile 20x20cm\<close>, has a
  name that contains \<open>tile\<close>; priced into a tiling task it gets the default quantity 1,
  not 10, because the key the code looks for is \<open>tiles\<close>.
\<close>

theorem tile_gets_default_quantity:
  "str_in ''tile'' (lower (mpr_material_name ceramic_wall_tile))
   \<and> estimate_material_quantity ceramic_wall_tile ''tiling'' = 1
   \<and> item_quantity (make_material_item ''tiling'' ceramic_wall_tile) = 1"
  by code_simp

section \<open>C10: the confidence score of a material item\<close>

text \<open>
  The confidence of a task that is priced without falling back is computed from the
  confidence scores of its items alone, and the confidence of the proposal is the mean of
  the task confidences.
\<close>

lemma task_confidence_from_items:
  assumes "calculate_task_pricing cfg td region project_type \<noteq> fallback_task (td_type td)"
  shows "task_confidence_score (calculate_task_pricing cfg td region project_type)
           = calculate_task_confidence
               (task_materials (calculate_task_pricing cfg td region project_type)) (td_type td)"
  using assms
  by (auto simp: calculate_task_pricing_def Let_def split: if_splits sum.splits)

lemma proposal_confidence_from_tasks:
  assumes "snd (generate_proposal cfg kw sim db transcript user_type region project_type qid) = Inr p"
  shows "prop_confidence_score p = calculate_overall_confidence (prop_tasks p)"
  using assms by (auto simp: generate_proposal_def Let_def split: if_splits)

text \<open>
  C10: in every generated proposal, each MaterialItem stems from a stored material found
  for one of the keywords, and its confidence score is that material's similarity score for
  that keyword, not the combined confidence score of the Confidence Engine.
\<close>

theorem item_confidence_is_similarity:
  assumes "snd (generate_proposal cfg kw sim db transcript user_type region project_type qid) = Inr p"
    and "item \<in> set (proposal_items p)"
  shows "\<exists>keyword \<in> set (kw transcript). \<exists>m \<in> set (db_materials db).
           item_material_name item = mat_material_name m
           \<and> item_unit_price item = mat_unit_price m
           \<and> item_confidence_score item = calculate_similarity_score sim keyword m"
proof -
  from proposal_item_origin[OF assms] obtain task_type keyword m where
    k: "keyword \<in> set (kw transcript)" and m: "m \<in> set (db_materials db)"
    and item: "item = make_material_item task_type
                        (to_response (score_material cfg sim keyword region m))"
    by blast
  have "item_material_name item = mat_material_name m
        \<and> item_unit_price item = mat_unit_price m
        \<and> item_confidence_score item = calculate_similarity_score sim keyword m"
    unfolding item by (simp add: make_material_item_def to_response_def score_material_def Let_def)
  then show ?thesis using k m by blast
qed

text \<open>
  In the Corsican proposal the item carries the similarity 0.9 of its material; the
  confidence score of that material, 0.9375, appears nowhere in the proposal.
\<close>

theorem item_confidence_is_similarity_witness:
  "snd (generate_proposal settings paint_keywords no_provider corse_db ''paint it and paint''
          CONTRACTOR (Some ''Corse'') None ''0b5c9a52-6d0e-4c43-9f0a-1f2e3d4c5b6a'')
     = Inr corse_proposal
   \<and> corse_item \<in> set (proposal_items corse_proposal)
   \<and> (\<exists>keyword \<in> set (paint_keywords ''paint it and paint'').
        \<exists>m \<in> set (db_materials corse_db).
          item_material_name corse_item = mat_material_name m
          \<and> item_unit_price corse_item = mat_unit_price m
          \<and> item_confidence_score corse_item = calculate_similarity_score no_provider keyword m)
   \<and> item_confidence_score corse_item = 0.9
   \<and> calculate_similarity_score no_provider ''paint'' interior_wall_paint = 0.9
   \<and> calculate_confidence_score (confidence_weights settings) interior_wall_paint 0.9
        (Some ''Corse'') = 0.9375
   \<and> prop_confidence_score corse_proposal = 0.9"
proof -
  have v: "item_confidence_score corse_item = 0.9
           \<and> calculate_similarity_score no_provider ''paint'' interior_wall_paint = 0.9
           \<and> calculate_confidence_score (confidence_weights settings) interior_wall_paint 0.9
                (Some ''Corse'') = 0.9375
           \<and> prop_confidence_score corse_proposal = 0.9"
    by code_simp
  show ?thesis
    using corse_proposal_generated corse_item_in_proposal v
      item_confidence_is_similarity[OF corse_proposal_generated corse_item_in_proposal]
    by blast
qed

end
